theory Spec2Isabelle
  imports Main
begin

section \<open>Data model of the RabbitMQ Queue adapter\<close>

text \<open>
  The development embeds \<^verbatim>\<open>Queue.ts\<close> (compiled as \<^verbatim>\<open>Queue.js\<close>): the nine static
  factory recipes, the private \<^verbatim>\<open>constructQueueAssertion\<close>, the per-delivery callback
  registered by \<^verbatim>\<open>consume\<close>, and \<^verbatim>\<open>ack\<close>/\<^verbatim>\<open>nack\<close>.

  A promise is modelled by the way it settles, together with the calls that were issued
  on the way. The broker side (amqplib channel, \<^verbatim>\<open>BrokerChannel.build\<close>) and the message
  listener are doubles: records of functions that say, for the arguments of a call,
  whether it succeeds or what it throws or rejects with.
\<close>

subsection \<open>JavaScript values that are thrown or rejected\<close>

text \<open>
  A thrown value is a string or an \<^verbatim>\<open>Error\<close> object with a message. The factories build
  their diagnostics with \<^verbatim>\<open>Constant.X + e\<close>, which coerces \<^verbatim>\<open>e\<close> to a string:
  a string is itself, and \<^verbatim>\<open>Error.prototype.toString\<close> gives \<^verbatim>\<open>"Error: " + message\<close>
  (just \<^verbatim>\<open>"Error"\<close> for an empty message).
\<close>

datatype jsval = JString string | JError string

fun jsToString :: "jsval \<Rightarrow> string" where
  "jsToString (JString s) = s"
| "jsToString (JError m) = (if m = [] then ''Error'' else ''Error: '' @ m)"

subsection \<open>The Constant catalogue\<close>

text \<open>
  \<^verbatim>\<open>Constant\<close> is imported by the source but its values are not part of it, so
  the catalogue is a parameter of every definition that reads it.
\<close>

record Constant =
  INDIVIDUAL_SUBSCRIBER_MUST_HAS_NAME :: string
  FAILED_BINDING_QUEUE_AND_EXCHANGE :: string
  QUEUE_BUILD_THROWS_ERROR :: string
  FAILED_ASSERT_QUEUE :: string
  PROMISE_ALL_FAILED_TO_BIND_QUEUE_TO_EXCHANGE :: string
  MESSAGE_CONSUMER_ERROR_EVENT_NAME :: string
  CHANNEL_CONSUME_ERROR :: string

subsection \<open>Exchange, Queue and the calls a recipe issues\<close>

text \<open>Of an exchange the recipes read only \<^verbatim>\<open>exchange.name()\<close>.\<close>

record Exchange =
  exchangeName :: string

text \<open>
  A Queue is a BrokerChannel. The constructor keeps the connection setting when it is
  not null and the broker channel (the exchange) otherwise; the name may be null. The
  base class is not part of the source: its durability flag is taken to be unset until
  \<^verbatim>\<open>setDurable\<close> is called.
\<close>

record 'cs Queue =
  connectionSetting :: "'cs option"
  brokerChannel :: "Exchange option"
  name :: "string option"
  isDurable :: "bool option"

definition newQueue :: "'cs option \<Rightarrow> Exchange option \<Rightarrow> string option \<Rightarrow> 'cs Queue" where
  "newQueue cs bc nm =
     (if cs \<noteq> None
      then \<lparr>connectionSetting = cs, brokerChannel = None, name = nm, isDurable = None\<rparr>
      else \<lparr>connectionSetting = None, brokerChannel = bc, name = nm, isDurable = None\<rparr>)"

definition setDurable :: "'cs Queue \<Rightarrow> bool \<Rightarrow> 'cs Queue" where
  "setDurable q d = q\<lparr>isDurable := Some d\<rparr>"

definition setName :: "'cs Queue \<Rightarrow> string \<Rightarrow> 'cs Queue" where
  "setName q n = q\<lparr>name := Some n\<rparr>"

text \<open>
  The calls a recipe issues, in the order it issues them: the construction of the
  Queue object, \<^verbatim>\<open>queue.build()\<close>, \<^verbatim>\<open>channel.assertQueue(name, {durable, exclusive,
  autoDelete})\<close> and \<^verbatim>\<open>channel.bindQueue(queueName, exchangeName, routingKey)\<close>.
\<close>

datatype 'cs call =
    Construct "'cs option" "Exchange option" "string option"
  | Build
  | AssertQueue "string option" bool bool bool
  | BindQueue "string option" string string

text \<open>
  The broker double. \<^verbatim>\<open>buildReply\<close> is the outcome of \<^verbatim>\<open>build()\<close> for a queue with
  the given connection setting and broker channel (None: resolved; Some e: rejected with
  e). \<^verbatim>\<open>assertQueueReply\<close> is the reply to \<^verbatim>\<open>assertQueue\<close>: the queue name the broker
  answers with (\<^verbatim>\<open>queueReply.queue\<close>), or the rejection. \<^verbatim>\<open>bindQueueReply\<close> is the
  outcome of one \<^verbatim>\<open>bindQueue\<close>.
\<close>

record 'cs Broker =
  buildReply :: "'cs option \<Rightarrow> Exchange option \<Rightarrow> jsval option"
  assertQueueReply :: "string option \<Rightarrow> bool \<Rightarrow> bool \<Rightarrow> bool \<Rightarrow> jsval + string"
  bindQueueReply :: "string option \<Rightarrow> string \<Rightarrow> string \<Rightarrow> jsval option"

text \<open>
  How the promise returned by a recipe settles (Inl: rejected with that string; Inr:
  resolved with that queue), the calls issued, and the lines given to \<^verbatim>\<open>debugError\<close>.
\<close>

record 'cs Settled =
  outcome :: "string + 'cs Queue"
  calls :: "'cs call list"
  debugLog :: "string list"

section \<open>constructQueueAssertion\<close>

text \<open>
  \<^verbatim>\<open>
  this.setDurable(isDurable);
  try {
    let queueReply = await this.channel().assertQueue(this.name(), {...});
    this.setName(queueReply.queue);
  } catch (e) { throw new Error(Constant.FAILED_ASSERT_QUEUE + e); }
  \<close>
  The result is what the async function throws (None when it returns), the queue
  object afterwards, and the call issued.
\<close>

definition constructQueueAssertion ::
  "Constant \<Rightarrow> 'cs Broker \<Rightarrow> 'cs Queue \<Rightarrow> bool \<Rightarrow> bool \<Rightarrow> bool
     \<Rightarrow> jsval option \<times> 'cs Queue \<times> 'cs call list" where
  "constructQueueAssertion C B q isDur isExcl isAutoDel =
     (let q1 = setDurable q isDur in
      case assertQueueReply B (name q1) isDur isExcl isAutoDel of
        Inr queueReply \<Rightarrow>
          (None, setName q1 queueReply, [AssertQueue (name q1) isDur isExcl isAutoDel])
      | Inl e \<Rightarrow>
          (Some (JError (FAILED_ASSERT_QUEUE C @ jsToString e)), q1,
           [AssertQueue (name q1) isDur isExcl isAutoDel]))"

section \<open>The factory recipes\<close>

text \<open>
  Each recipe is \<^verbatim>\<open>new Promise(async (resolve, reject) => {...})\<close>; on every path of
  the body exactly one of \<^verbatim>\<open>resolve\<close> and \<^verbatim>\<open>reject\<close> is reached, once.
\<close>

definition rejectWith :: "string \<Rightarrow> 'cs call list \<Rightarrow> string list \<Rightarrow> 'cs Settled" where
  "rejectWith msg io lg = \<lparr>outcome = Inl msg, calls = io, debugLog = lg\<rparr>"

definition resolveWith :: "'cs Queue \<Rightarrow> 'cs call list \<Rightarrow> string list \<Rightarrow> 'cs Settled" where
  "resolveWith q io lg = \<lparr>outcome = Inr q, calls = io, debugLog = lg\<rparr>"

text \<open>The guard \<^verbatim>\<open>name == null || name == ""\<close>.\<close>

definition nameMissing :: "string option \<Rightarrow> bool" where
  "nameMissing nm = (nm = None \<or> nm = Some [])"

text \<open>A parameter with a default value: None is the omitted argument.\<close>

definition orDefault :: "'a \<Rightarrow> 'a option \<Rightarrow> 'a" where
  "orDefault d v = (case v of None \<Rightarrow> d | Some x \<Rightarrow> x)"

text \<open>
  \<^verbatim>\<open>Promise.all(routingKeys.map(routingKey => queue.channel().bindQueue(queue.name(),
  exchange.name(), routingKey)))\<close>: \<^verbatim>\<open>map\<close> issues one call per routing key, all of
  them, before any reply is looked at; \<^verbatim>\<open>Promise.all\<close> resolves when every reply is a
  success and otherwise rejects with the first rejection (replies on one channel
  arrive in the order of the calls).
\<close>

definition bindQueueCalls :: "'cs Queue \<Rightarrow> Exchange \<Rightarrow> string list \<Rightarrow> 'cs call list" where
  "bindQueueCalls q ex routingKeys =
     map (\<lambda>routingKey. BindQueue (name q) (exchangeName ex) routingKey) routingKeys"

definition bindQueueReplies ::
  "'cs Broker \<Rightarrow> 'cs Queue \<Rightarrow> Exchange \<Rightarrow> string list \<Rightarrow> jsval option list" where
  "bindQueueReplies B q ex routingKeys =
     map (\<lambda>routingKey. bindQueueReply B (name q) (exchangeName ex) routingKey) routingKeys"

fun promiseAll :: "jsval option list \<Rightarrow> jsval option" where
  "promiseAll [] = None"
| "promiseAll (None # rs) = promiseAll rs"
| "promiseAll (Some e # rs) = Some e"

definition customInstanceUsingConnectionSetting ::
  "Constant \<Rightarrow> 'cs Broker \<Rightarrow> 'cs option \<Rightarrow> string option
     \<Rightarrow> bool option \<Rightarrow> bool option \<Rightarrow> bool option \<Rightarrow> 'cs Settled" where
  "customInstanceUsingConnectionSetting C B cs nm isDur isExcl isAutoDel =
     (if nameMissing nm
      then rejectWith (INDIVIDUAL_SUBSCRIBER_MUST_HAS_NAME C) [] []
      else
        let queue = newQueue cs None nm in
        case buildReply B (connectionSetting queue) (brokerChannel queue) of
          Some e \<Rightarrow>
            rejectWith (QUEUE_BUILD_THROWS_ERROR C @ jsToString e)
              [Construct cs None nm, Build]
              [QUEUE_BUILD_THROWS_ERROR C @ jsToString e]
        | None \<Rightarrow>
            (case constructQueueAssertion C B queue
                    (orDefault True isDur) (orDefault False isExcl) (orDefault False isAutoDel) of
               (None, q', io) \<Rightarrow> resolveWith q' ([Construct cs None nm, Build] @ io) []
             | (Some e, q', io) \<Rightarrow>
                 rejectWith (FAILED_BINDING_QUEUE_AND_EXCHANGE C @ jsToString e)
                   ([Construct cs None nm, Build] @ io)
                   [FAILED_BINDING_QUEUE_AND_EXCHANGE C @ jsToString e]))"

definition customInstanceUsingExchange ::
  "Constant \<Rightarrow> 'cs Broker \<Rightarrow> Exchange \<Rightarrow> string option \<Rightarrow> string list option
     \<Rightarrow> bool option \<Rightarrow> bool option \<Rightarrow> bool option \<Rightarrow> 'cs Settled" where
  "customInstanceUsingExchange C B ex nm routingKeys isDur isExcl isAutoDel =
     (if nameMissing nm
      then rejectWith (INDIVIDUAL_SUBSCRIBER_MUST_HAS_NAME C) [] []
      else
        let queue = newQueue None (Some ex) nm; keys = orDefault [] routingKeys in
        case buildReply B (connectionSetting queue) (brokerChannel queue) of
          Some e \<Rightarrow>
            rejectWith (QUEUE_BUILD_THROWS_ERROR C @ jsToString e)
              [Construct None (Some ex) nm, Build] []
        | None \<Rightarrow>
            (case constructQueueAssertion C B queue
                    (orDefault True isDur) (orDefault False isExcl) (orDefault False isAutoDel) of
               (Some e, q', io) \<Rightarrow>
                 rejectWith (FAILED_BINDING_QUEUE_AND_EXCHANGE C @ jsToString e)
                   ([Construct None (Some ex) nm, Build] @ io)
                   [PROMISE_ALL_FAILED_TO_BIND_QUEUE_TO_EXCHANGE C @ jsToString e]
             | (None, q', io) \<Rightarrow>
                 (case promiseAll (bindQueueReplies B q' ex keys) of
                    None \<Rightarrow>
                      resolveWith q'
                        ([Construct None (Some ex) nm, Build] @ io @ bindQueueCalls q' ex keys) []
                  | Some e \<Rightarrow>
                      rejectWith (FAILED_BINDING_QUEUE_AND_EXCHANGE C @ jsToString e)
                        ([Construct None (Some ex) nm, Build] @ io @ bindQueueCalls q' ex keys)
                        [])))"

definition durableInstance ::
  "Constant \<Rightarrow> 'cs Broker \<Rightarrow> 'cs option \<Rightarrow> string option \<Rightarrow> 'cs Settled" where
  "durableInstance C B cs nm =
     (if nameMissing nm
      then rejectWith (INDIVIDUAL_SUBSCRIBER_MUST_HAS_NAME C) [] []
      else
        let queue = newQueue cs None nm in
        case buildReply B (connectionSetting queue) (brokerChannel queue) of
          Some e \<Rightarrow>
            rejectWith (QUEUE_BUILD_THROWS_ERROR C @ jsToString e)
              [Construct cs None nm, Build]
              [QUEUE_BUILD_THROWS_ERROR C @ jsToString e]
        | None \<Rightarrow>
            (case constructQueueAssertion C B queue True False False of
               (None, q', io) \<Rightarrow> resolveWith q' ([Construct cs None nm, Build] @ io) []
             | (Some e, q', io) \<Rightarrow>
                 rejectWith (FAILED_ASSERT_QUEUE C @ jsToString e)
                   ([Construct cs None nm, Build] @ io)
                   [FAILED_ASSERT_QUEUE C @ jsToString e]))"

definition durableExclusiveInstance ::
  "Constant \<Rightarrow> 'cs Broker \<Rightarrow> 'cs option \<Rightarrow> string option \<Rightarrow> 'cs Settled" where
  "durableExclusiveInstance C B cs nm =
     (if nameMissing nm
      then rejectWith (INDIVIDUAL_SUBSCRIBER_MUST_HAS_NAME C) [] []
      else
        let queue = newQueue cs None nm in
        case buildReply B (connectionSetting queue) (brokerChannel queue) of
          Some e \<Rightarrow>
            rejectWith (QUEUE_BUILD_THROWS_ERROR C @ jsToString e)
              [Construct cs None nm, Build]
              [QUEUE_BUILD_THROWS_ERROR C @ jsToString e]
        | None \<Rightarrow>
            (case constructQueueAssertion C B queue True True False of
               (None, q', io) \<Rightarrow> resolveWith q' ([Construct cs None nm, Build] @ io) []
             | (Some e, q', io) \<Rightarrow>
                 rejectWith (FAILED_ASSERT_QUEUE C @ jsToString e)
                   ([Construct cs None nm, Build] @ io)
                   [FAILED_ASSERT_QUEUE C @ jsToString e]))"

text \<open>
  As \<^verbatim>\<open>durableInstance\<close>, except that the \<^verbatim>\<open>catch\<close> around \<^verbatim>\<open>build()\<close> does not
  call \<^verbatim>\<open>debugError\<close>.
\<close>

definition durableNonExclusiveNotAutoDeletedInstance ::
  "Constant \<Rightarrow> 'cs Broker \<Rightarrow> 'cs option \<Rightarrow> string option \<Rightarrow> 'cs Settled" where
  "durableNonExclusiveNotAutoDeletedInstance C B cs nm =
     (if nameMissing nm
      then rejectWith (INDIVIDUAL_SUBSCRIBER_MUST_HAS_NAME C) [] []
      else
        let queue = newQueue cs None nm in
        case buildReply B (connectionSetting queue) (brokerChannel queue) of
          Some e \<Rightarrow>
            rejectWith (QUEUE_BUILD_THROWS_ERROR C @ jsToString e)
              [Construct cs None nm, Build] []
        | None \<Rightarrow>
            (case constructQueueAssertion C B queue True False False of
               (None, q', io) \<Rightarrow> resolveWith q' ([Construct cs None nm, Build] @ io) []
             | (Some e, q', io) \<Rightarrow>
                 rejectWith (FAILED_ASSERT_QUEUE C @ jsToString e)
                   ([Construct cs None nm, Build] @ io)
                   [FAILED_ASSERT_QUEUE C @ jsToString e]))"

definition individualExchangeSubscriberInstance ::
  "Constant \<Rightarrow> 'cs Broker \<Rightarrow> Exchange \<Rightarrow> string option \<Rightarrow> string list option
     \<Rightarrow> 'cs Settled" where
  "individualExchangeSubscriberInstance C B ex nm routingKeys =
     (if nameMissing nm
      then rejectWith (INDIVIDUAL_SUBSCRIBER_MUST_HAS_NAME C) [] []
      else
        let queue = newQueue None (Some ex) nm; keys = orDefault [] routingKeys in
        case buildReply B (connectionSetting queue) (brokerChannel queue) of
          Some e \<Rightarrow>
            rejectWith (QUEUE_BUILD_THROWS_ERROR C @ jsToString e)
              [Construct None (Some ex) nm, Build]
              [QUEUE_BUILD_THROWS_ERROR C @ jsToString e]
        | None \<Rightarrow>
            (case constructQueueAssertion C B queue True False False of
               (Some e, q', io) \<Rightarrow>
                 rejectWith (FAILED_BINDING_QUEUE_AND_EXCHANGE C @ jsToString e)
                   ([Construct None (Some ex) nm, Build] @ io)
                   [FAILED_BINDING_QUEUE_AND_EXCHANGE C @ jsToString e]
             | (None, q', io) \<Rightarrow>
                 (case promiseAll (bindQueueReplies B q' ex keys) of
                    None \<Rightarrow>
                      resolveWith q'
                        ([Construct None (Some ex) nm, Build] @ io @ bindQueueCalls q' ex keys) []
                  | Some e \<Rightarrow>
                      rejectWith (FAILED_BINDING_QUEUE_AND_EXCHANGE C @ jsToString e)
                        ([Construct None (Some ex) nm, Build] @ io @ bindQueueCalls q' ex keys)
                        [FAILED_BINDING_QUEUE_AND_EXCHANGE C @ jsToString e])))"

text \<open>The queue is created with the empty name; there is no guard.\<close>

definition exchangeTemporarySubscriberInstance ::
  "Constant \<Rightarrow> 'cs Broker \<Rightarrow> Exchange \<Rightarrow> 'cs Settled" where
  "exchangeTemporarySubscriberInstance C B ex =
     (let queue = newQueue None (Some ex) (Some []) in
      case buildReply B (connectionSetting queue) (brokerChannel queue) of
        Some e \<Rightarrow>
          rejectWith (QUEUE_BUILD_THROWS_ERROR C @ jsToString e)
            [Construct None (Some ex) (Some []), Build]
            [QUEUE_BUILD_THROWS_ERROR C @ jsToString e]
      | None \<Rightarrow>
          (case constructQueueAssertion C B queue False True True of
             (Some e, q', io) \<Rightarrow>
               rejectWith (FAILED_BINDING_QUEUE_AND_EXCHANGE C @ jsToString e)
                 ([Construct None (Some ex) (Some []), Build] @ io)
                 [FAILED_BINDING_QUEUE_AND_EXCHANGE C @ jsToString e]
           | (None, q', io) \<Rightarrow>
               (case bindQueueReply B (name q') (exchangeName ex) [] of
                  None \<Rightarrow>
                    resolveWith q'
                      ([Construct None (Some ex) (Some []), Build] @ io
                         @ [BindQueue (name q') (exchangeName ex) []]) []
                | Some e \<Rightarrow>
                    rejectWith (FAILED_BINDING_QUEUE_AND_EXCHANGE C @ jsToString e)
                      ([Construct None (Some ex) (Some []), Build] @ io
                         @ [BindQueue (name q') (exchangeName ex) []])
                      [FAILED_BINDING_QUEUE_AND_EXCHANGE C @ jsToString e])))"

text \<open>The caller's name goes to the constructor as it is; there is no guard.\<close>

definition exchangeNamedSubscriberInstance ::
  "Constant \<Rightarrow> 'cs Broker \<Rightarrow> Exchange \<Rightarrow> string option \<Rightarrow> 'cs Settled" where
  "exchangeNamedSubscriberInstance C B ex nm =
     (let queue = newQueue None (Some ex) nm in
      case buildReply B (connectionSetting queue) (brokerChannel queue) of
        Some e \<Rightarrow>
          rejectWith (QUEUE_BUILD_THROWS_ERROR C @ jsToString e)
            [Construct None (Some ex) nm, Build]
            [QUEUE_BUILD_THROWS_ERROR C @ jsToString e]
      | None \<Rightarrow>
          (case constructQueueAssertion C B queue True False False of
             (Some e, q', io) \<Rightarrow>
               rejectWith (FAILED_BINDING_QUEUE_AND_EXCHANGE C @ jsToString e)
                 ([Construct None (Some ex) nm, Build] @ io)
                 [FAILED_BINDING_QUEUE_AND_EXCHANGE C @ jsToString e]
           | (None, q', io) \<Rightarrow>
               (case bindQueueReply B (name q') (exchangeName ex) [] of
                  None \<Rightarrow>
                    resolveWith q'
                      ([Construct None (Some ex) nm, Build] @ io
                         @ [BindQueue (name q') (exchangeName ex) []]) []
                | Some e \<Rightarrow>
                    rejectWith (FAILED_BINDING_QUEUE_AND_EXCHANGE C @ jsToString e)
                      ([Construct None (Some ex) nm, Build] @ io
                         @ [BindQueue (name q') (exchangeName ex) []])
                      [FAILED_BINDING_QUEUE_AND_EXCHANGE C @ jsToString e])))"

definition exchangeTemporaryDirectOrTopicSubscriberInstance ::
  "Constant \<Rightarrow> 'cs Broker \<Rightarrow> Exchange \<Rightarrow> string list \<Rightarrow> 'cs Settled" where
  "exchangeTemporaryDirectOrTopicSubscriberInstance C B ex routingKeys =
     (let queue = newQueue None (Some ex) (Some []) in
      case buildReply B (connectionSetting queue) (brokerChannel queue) of
        Some e \<Rightarrow>
          rejectWith (QUEUE_BUILD_THROWS_ERROR C @ jsToString e)
            [Construct None (Some ex) (Some []), Build]
            [QUEUE_BUILD_THROWS_ERROR C @ jsToString e]
      | None \<Rightarrow>
          (case constructQueueAssertion C B queue False True True of
             (Some e, q', io) \<Rightarrow>
               rejectWith (FAILED_BINDING_QUEUE_AND_EXCHANGE C @ jsToString e)
                 ([Construct None (Some ex) (Some []), Build] @ io)
                 [FAILED_BINDING_QUEUE_AND_EXCHANGE C @ jsToString e]
           | (None, q', io) \<Rightarrow>
               (case promiseAll (bindQueueReplies B q' ex routingKeys) of
                  None \<Rightarrow>
                    resolveWith q'
                      ([Construct None (Some ex) (Some []), Build] @ io
                         @ bindQueueCalls q' ex routingKeys) []
                | Some e \<Rightarrow>
                    rejectWith (FAILED_BINDING_QUEUE_AND_EXCHANGE C @ jsToString e)
                      ([Construct None (Some ex) (Some []), Build] @ io
                         @ bindQueueCalls q' ex routingKeys)
                      [FAILED_BINDING_QUEUE_AND_EXCHANGE C @ jsToString e])))"

section \<open>Consumption and acknowledgment\<close>

text \<open>
  What happens on the consuming side is recorded as a log of effects: the two calls
  into the message listener, the events emitted on the queue instance, and the
  acknowledgment calls on the channel.
\<close>

datatype 'm effect =
    SetCurrentMessage 'm
  | HandleMessage 'm
  | Emit string jsval
  | ChannelAck 'm
  | ChannelNack 'm bool bool

text \<open>
  The listener double: for a message, whether \<^verbatim>\<open>setCurrentMessage(msg)\<close> and
  \<^verbatim>\<open>handleMessage(msg, ack)\<close> return (None) or throw synchronously (Some e).
\<close>

record 'm MessageListener =
  setCurrentMessage :: "'m \<Rightarrow> jsval option"
  handleMessage :: "'m \<Rightarrow> jsval option"

text \<open>
  The queue instance is an event emitter. \<^verbatim>\<open>this.emit(eventName, e)\<close> runs the
  subscribers of the event synchronously, so the call returns (None) or throws
  (Some e'): a subscriber that throws, or an event named \<^verbatim>\<open>error\<close> that nobody
  subscribed to. The emitter double gives that outcome for an event name and argument.
\<close>

record EventEmitter =
  emitReply :: "string \<Rightarrow> jsval \<Rightarrow> jsval option"

text \<open>
  The callback that \<^verbatim>\<open>consume\<close> passes to \<^verbatim>\<open>channel.consume\<close>:
  \<^verbatim>\<open>
  (msg) => {
    messageListener.setCurrentMessage(msg);
    try { messageListener.handleMessage(msg, ack); }
    catch (e) { this.emit(Constant.MESSAGE_CONSUMER_ERROR_EVENT_NAME, e); }
  }
  \<close>
  The result is the exception that leaves the callback (None when it returns) and the
  effects of the callback itself. \<^verbatim>\<open>setCurrentMessage\<close> is outside the \<^verbatim>\<open>try\<close>,
  and so is \<^verbatim>\<open>this.emit\<close>, which is called in the \<^verbatim>\<open>catch\<close> block: what either
  of them throws leaves the callback.
\<close>

definition consumeCallback ::
  "Constant \<Rightarrow> EventEmitter \<Rightarrow> 'm MessageListener \<Rightarrow> 'm
     \<Rightarrow> jsval option \<times> 'm effect list" where
  "consumeCallback C E L msg =
     (case setCurrentMessage L msg of
        Some e \<Rightarrow> (Some e, [SetCurrentMessage msg])
      | None \<Rightarrow>
          (case handleMessage L msg of
             None \<Rightarrow> (None, [SetCurrentMessage msg, HandleMessage msg])
           | Some e \<Rightarrow>
               (emitReply E (MESSAGE_CONSUMER_ERROR_EVENT_NAME C) e,
                [SetCurrentMessage msg, HandleMessage msg,
                 Emit (MESSAGE_CONSUMER_ERROR_EVENT_NAME C) e])))"

text \<open>
  The channel double hands each delivery to the registered callback, in order. An
  exception that leaves the callback reaches the broker layer and ends the run; the
  deliveries after it are not handled.
\<close>

fun deliverAll ::
  "Constant \<Rightarrow> EventEmitter \<Rightarrow> 'm MessageListener \<Rightarrow> 'm list
     \<Rightarrow> jsval option \<times> 'm effect list" where
  "deliverAll C E L [] = (None, [])"
| "deliverAll C E L (msg # msgs) =
     (case consumeCallback C E L msg of
        (Some e, fx) \<Rightarrow> (Some e, fx)
      | (None, fx) \<Rightarrow>
          (case deliverAll C E L msgs of (r, fx') \<Rightarrow> (r, fx @ fx')))"

text \<open>
  \<^verbatim>\<open>ack(message) { this.channel().ack(message); }\<close> and
  \<^verbatim>\<open>nack(message, reqeue) { this.channel().nack(message, false, reqeue); }\<close>,
  as functions on the log.
\<close>

definition ack :: "'m effect list \<Rightarrow> 'm \<Rightarrow> 'm effect list" where
  "ack log message = log @ [ChannelAck message]"

definition nack :: "'m effect list \<Rightarrow> 'm \<Rightarrow> bool \<Rightarrow> 'm effect list" where
  "nack log message reqeue = log @ [ChannelNack message False reqeue]"

text \<open>
  Readers of the log. For \<^verbatim>\<open>channel.ack(message)\<close> the second parameter
  \<^verbatim>\<open>allUpTo\<close> is omitted, which the channel reads as false.
\<close>

fun isEmit :: "'m effect \<Rightarrow> bool" where
  "isEmit (Emit ev e) = True"
| "isEmit _ = False"

fun isAckOrNack :: "'m effect \<Rightarrow> bool" where
  "isAckOrNack (ChannelAck m) = True"
| "isAckOrNack (ChannelNack m allUpTo requeue) = True"
| "isAckOrNack _ = False"

fun allUpToOf :: "'m effect \<Rightarrow> bool" where
  "allUpToOf (ChannelNack m allUpTo requeue) = allUpTo"
| "allUpToOf _ = False"

section \<open>Readers of the call list\<close>

fun assertedFlags :: "'cs call list \<Rightarrow> (bool \<times> bool \<times> bool) list" where
  "assertedFlags [] = []"
| "assertedFlags (AssertQueue nm d x a # cs) = (d, x, a) # assertedFlags cs"
| "assertedFlags (c # cs) = assertedFlags cs"

fun isBindQueue :: "'cs call \<Rightarrow> bool" where
  "isBindQueue (BindQueue qn xn rk) = True"
| "isBindQueue _ = False"

section \<open>Doubles for the examples\<close>

text \<open>
  A catalogue with placeholder texts (the repository's texts are not in the source),
  and brokers and listeners with fixed behaviour.
\<close>

definition testConstant :: Constant where
  "testConstant =
     \<lparr>INDIVIDUAL_SUBSCRIBER_MUST_HAS_NAME = ''name required'',
      FAILED_BINDING_QUEUE_AND_EXCHANGE = ''bind failed: '',
      QUEUE_BUILD_THROWS_ERROR = ''build failed: '',
      FAILED_ASSERT_QUEUE = ''assert failed: '',
      PROMISE_ALL_FAILED_TO_BIND_QUEUE_TO_EXCHANGE = ''bind all failed: '',
      MESSAGE_CONSUMER_ERROR_EVENT_NAME = ''MessageConsumerError'',
      CHANNEL_CONSUME_ERROR = ''consume failed: ''\<rparr>"

definition testExchange :: Exchange where
  "testExchange = \<lparr>exchangeName = ''events''\<rparr>"

text \<open>Every call succeeds; a queue asserted without a name is named by the broker.\<close>

definition okBroker :: "unit Broker" where
  "okBroker =
     \<lparr>buildReply = (\<lambda>cs bc. None),
      assertQueueReply =
        (\<lambda>nm d x a. Inr (case nm of None \<Rightarrow> ''amq.gen-1''
                           | Some n \<Rightarrow> (if n = [] then ''amq.gen-1'' else n))),
      bindQueueReply = (\<lambda>qn xn rk. None)\<rparr>"

text \<open>As \<open>okBroker\<close>, but \<^verbatim>\<open>assertQueue\<close> is rejected.\<close>

definition assertFailBroker :: "unit Broker" where
  "assertFailBroker =
     okBroker\<lparr>assertQueueReply := (\<lambda>nm d x a. Inl (JError ''PRECONDITION_FAILED''))\<rparr>"

text \<open>As \<open>okBroker\<close>, but binding the routing key \<open>bad\<close> is rejected.\<close>

definition bindFailBroker :: "unit Broker" where
  "bindFailBroker =
     okBroker\<lparr>bindQueueReply :=
       (\<lambda>qn xn rk. if rk = ''bad'' then Some (JError ''NOT_FOUND'') else None)\<rparr>"

text \<open>As \<open>okBroker\<close>, but \<^verbatim>\<open>build()\<close> is rejected.\<close>

definition buildFailBroker :: "unit Broker" where
  "buildFailBroker = okBroker\<lparr>buildReply := (\<lambda>cs bc. Some (JError ''ECONNREFUSED''))\<rparr>"

text \<open>A listener whose handler throws on delivery 1 and returns on every other one.\<close>

definition throwingListener :: "nat MessageListener" where
  "throwingListener =
     \<lparr>setCurrentMessage = (\<lambda>m. None),
      handleMessage = (\<lambda>m. if m = 1 then Some (JError ''boom'') else None)\<rparr>"

text \<open>A listener whose \<^verbatim>\<open>setCurrentMessage\<close> throws on delivery 1.\<close>

definition brokenSetterListener :: "nat MessageListener" where
  "brokenSetterListener =
     \<lparr>setCurrentMessage = (\<lambda>m. if m = 1 then Some (JError ''frozen'') else None),
      handleMessage = (\<lambda>m. None)\<rparr>"

text \<open>An emitter whose subscribers all return.\<close>

definition quietEmitter :: EventEmitter where
  "quietEmitter = \<lparr>emitReply = (\<lambda>ev e. None)\<rparr>"

text \<open>An emitter with a subscriber that throws.\<close>

definition throwingSubscriberEmitter :: EventEmitter where
  "throwingSubscriberEmitter = \<lparr>emitReply = (\<lambda>ev e. Some (JError ''subscriber failed''))\<rparr>"

text \<open>As \<open>okBroker\<close>, but every \<^verbatim>\<open>assertQueue\<close> is answered with the name \<open>orders.q1\<close>.\<close>

definition namedReplyBroker :: "unit Broker" where
  "namedReplyBroker = okBroker\<lparr>assertQueueReply := (\<lambda>nm d x a. Inr ''orders.q1'')\<rparr>"

section \<open>Auxiliary facts\<close>

lemma promiseAll_all_None: "(\<forall>r \<in> set rs. r = None) \<Longrightarrow> promiseAll rs = None"
  by (induction rs rule: promiseAll.induct) auto

lemma promiseAll_some_failure:
  "(\<exists>r \<in> set rs. r \<noteq> None) \<Longrightarrow> \<exists>e. promiseAll rs = Some e \<and> Some e \<in> set rs"
  by (induction rs rule: promiseAll.induct) auto

lemma promiseAll_map_None:
  "(\<forall>k \<in> set ks. f k = None) \<Longrightarrow> promiseAll (map f ks) = None"
  by (rule promiseAll_all_None) auto

lemma promiseAll_map_failure:
  "(\<exists>k \<in> set ks. f k \<noteq> None) \<Longrightarrow> \<exists>e. promiseAll (map f ks) = Some e \<and> Some e \<in> f ` set ks"
  using promiseAll_some_failure [of "map f ks"] by auto

lemma orDefault_Some: "orDefault dflt (Some v) = v"
  by (simp add: orDefault_def)

lemma orDefault_None: "orDefault dflt None = dflt"
  by (simp add: orDefault_def)

lemma assertedFlags_append: "assertedFlags (xs @ ys) = assertedFlags xs @ assertedFlags ys"
  by (induction xs rule: assertedFlags.induct) auto

lemma assertedFlags_bindQueueCalls: "assertedFlags (bindQueueCalls q ex ks) = []"
  by (induction ks) (auto simp: bindQueueCalls_def)

lemma filter_isBindQueue_map:
  "filter isBindQueue (map (BindQueue qn xn) ks) = map (BindQueue qn xn) ks"
  by (induction ks) auto

lemma bindQueueCalls_name:
  "name q = Some n \<Longrightarrow> bindQueueCalls q ex ks = map (BindQueue (Some n) (exchangeName ex)) ks"
  by (simp add: bindQueueCalls_def)

lemma bindQueueReplies_name:
  "name q = Some n \<Longrightarrow>
   bindQueueReplies B q ex ks = map (bindQueueReply B (Some n) (exchangeName ex)) ks"
  by (simp add: bindQueueReplies_def)

lemma newQueue_fields:
  "connectionSetting (newQueue cs None nm) = cs"
  "brokerChannel (newQueue cs None nm) = None"
  "connectionSetting (newQueue None bc nm) = None"
  "brokerChannel (newQueue None bc nm) = bc"
  "name (newQueue cs bc nm) = nm"
  "isDurable (newQueue cs bc nm) = None"
  by (simp_all add: newQueue_def)

lemma newQueue_connectionSetting:
  "newQueue cs None nm =
     \<lparr>connectionSetting = cs, brokerChannel = None, name = nm, isDurable = None\<rparr>"
  by (simp add: newQueue_def)

lemma constructQueueAssertion_ok:
  "assertQueueReply B (name q) d x a = Inr n \<Longrightarrow>
   constructQueueAssertion C B q d x a =
     (None, q\<lparr>isDurable := Some d, name := Some n\<rparr>, [AssertQueue (name q) d x a])"
  by (simp add: constructQueueAssertion_def setDurable_def setName_def)

lemma constructQueueAssertion_fails:
  "assertQueueReply B (name q) d x a = Inl e \<Longrightarrow>
   constructQueueAssertion C B q d x a =
     (Some (JError (FAILED_ASSERT_QUEUE C @ jsToString e)), q\<lparr>isDurable := Some d\<rparr>,
      [AssertQueue (name q) d x a])"
  by (simp add: constructQueueAssertion_def setDurable_def)

lemma constructQueueAssertion_call:
  "snd (snd (constructQueueAssertion C B q d x a)) = [AssertQueue (name q) d x a]"
  by (simp add: constructQueueAssertion_def setDurable_def Let_def split: sum.splits)

lemma assertedFlags_constructQueueAssertion:
  "constructQueueAssertion C B q d x a = (r, q', io) \<Longrightarrow> assertedFlags io = [(d, x, a)]"
  using constructQueueAssertion_call [of C B q d x a] by simp

text \<open>
  The six recipes that start with the guard reject a missing name with the constant
  \<^verbatim>\<open>INDIVIDUAL_SUBSCRIBER_MUST_HAS_NAME\<close>, and issue no call and no log line.
\<close>

lemma guarded_recipes_reject_missing_name:
  assumes "nameMissing nm"
  shows "customInstanceUsingConnectionSetting C B cs nm d x a =
           rejectWith (INDIVIDUAL_SUBSCRIBER_MUST_HAS_NAME C) [] []"
    and "customInstanceUsingExchange C B ex nm ks d x a =
           rejectWith (INDIVIDUAL_SUBSCRIBER_MUST_HAS_NAME C) [] []"
    and "durableInstance C B cs nm = rejectWith (INDIVIDUAL_SUBSCRIBER_MUST_HAS_NAME C) [] []"
    and "durableExclusiveInstance C B cs nm =
           rejectWith (INDIVIDUAL_SUBSCRIBER_MUST_HAS_NAME C) [] []"
    and "durableNonExclusiveNotAutoDeletedInstance C B cs nm =
           rejectWith (INDIVIDUAL_SUBSCRIBER_MUST_HAS_NAME C) [] []"
    and "individualExchangeSubscriberInstance C B ex nm ks =
           rejectWith (INDIVIDUAL_SUBSCRIBER_MUST_HAS_NAME C) [] []"
  using assms
  by (simp_all add: customInstanceUsingConnectionSetting_def customInstanceUsingExchange_def
        durableInstance_def durableExclusiveInstance_def
        durableNonExclusiveNotAutoDeletedInstance_def individualExchangeSubscriberInstance_def)

text \<open>
  What each exchange-bound recipe with routing keys does once \<^verbatim>\<open>build()\<close> and the
  assertion have succeeded.
\<close>

lemma customInstanceUsingExchange_bound:
  assumes "buildReply B None (Some ex) = None" "\<not> nameMissing nm"
    and "assertQueueReply B nm (orDefault True d) (orDefault False x) (orDefault False a) = Inr n"
  shows "customInstanceUsingExchange C B ex nm rks d x a =
     (case promiseAll (map (bindQueueReply B (Some n) (exchangeName ex)) (orDefault [] rks)) of
        None \<Rightarrow> resolveWith
                  \<lparr>connectionSetting = None, brokerChannel = Some ex, name = Some n,
                   isDurable = Some (orDefault True d)\<rparr>
                  ([Construct None (Some ex) nm, Build,
                    AssertQueue nm (orDefault True d) (orDefault False x) (orDefault False a)]
                   @ map (BindQueue (Some n) (exchangeName ex)) (orDefault [] rks)) []
      | Some e \<Rightarrow> rejectWith (FAILED_BINDING_QUEUE_AND_EXCHANGE C @ jsToString e)
                  ([Construct None (Some ex) nm, Build,
                    AssertQueue nm (orDefault True d) (orDefault False x) (orDefault False a)]
                   @ map (BindQueue (Some n) (exchangeName ex)) (orDefault [] rks)) [])"
  using assms
  by (simp add: customInstanceUsingExchange_def Let_def newQueue_fields constructQueueAssertion_ok
        bindQueueCalls_name bindQueueReplies_name newQueue_def split: option.splits)

lemma individualExchangeSubscriberInstance_bound:
  assumes "buildReply B None (Some ex) = None" "\<not> nameMissing nm"
    and "assertQueueReply B nm True False False = Inr n"
  shows "individualExchangeSubscriberInstance C B ex nm rks =
     (case promiseAll (map (bindQueueReply B (Some n) (exchangeName ex)) (orDefault [] rks)) of
        None \<Rightarrow> resolveWith
                  \<lparr>connectionSetting = None, brokerChannel = Some ex, name = Some n,
                   isDurable = Some True\<rparr>
                  ([Construct None (Some ex) nm, Build, AssertQueue nm True False False]
                   @ map (BindQueue (Some n) (exchangeName ex)) (orDefault [] rks)) []
      | Some e \<Rightarrow> rejectWith (FAILED_BINDING_QUEUE_AND_EXCHANGE C @ jsToString e)
                  ([Construct None (Some ex) nm, Build, AssertQueue nm True False False]
                   @ map (BindQueue (Some n) (exchangeName ex)) (orDefault [] rks))
                  [FAILED_BINDING_QUEUE_AND_EXCHANGE C @ jsToString e])"
  using assms
  by (simp add: individualExchangeSubscriberInstance_def Let_def newQueue_fields constructQueueAssertion_ok
        bindQueueCalls_name bindQueueReplies_name newQueue_def split: option.splits)

lemma exchangeTemporaryDirectOrTopicSubscriberInstance_bound:
  assumes "buildReply B None (Some ex) = None"
    and "assertQueueReply B (Some []) False True True = Inr n"
  shows "exchangeTemporaryDirectOrTopicSubscriberInstance C B ex rks =
     (case promiseAll (map (bindQueueReply B (Some n) (exchangeName ex)) rks) of
        None \<Rightarrow> resolveWith
                  \<lparr>connectionSetting = None, brokerChannel = Some ex, name = Some n,
                   isDurable = Some False\<rparr>
                  ([Construct None (Some ex) (Some []), Build, AssertQueue (Some []) False True True]
                   @ map (BindQueue (Some n) (exchangeName ex)) rks) []
      | Some e \<Rightarrow> rejectWith (FAILED_BINDING_QUEUE_AND_EXCHANGE C @ jsToString e)
                  ([Construct None (Some ex) (Some []), Build, AssertQueue (Some []) False True True]
                   @ map (BindQueue (Some n) (exchangeName ex)) rks)
                  [FAILED_BINDING_QUEUE_AND_EXCHANGE C @ jsToString e])"
  using assms
  by (simp add: exchangeTemporaryDirectOrTopicSubscriberInstance_def Let_def newQueue_fields constructQueueAssertion_ok
        bindQueueCalls_name bindQueueReplies_name newQueue_def split: option.splits)


text \<open>
  The diagnostic each recipe rejects with, by the stage that failed. A failure of
  \<^verbatim>\<open>build()\<close> is reported with \<^verbatim>\<open>QUEUE_BUILD_THROWS_ERROR\<close> by all nine recipes.
\<close>

lemma build_failure_diagnostic:
  assumes "buildReply B cs None = Some e" and "buildReply B None (Some ex) = Some e"
    and "\<not> nameMissing nm"
  shows "outcome (customInstanceUsingConnectionSetting C B cs nm d x a) =
           Inl (QUEUE_BUILD_THROWS_ERROR C @ jsToString e)"
    and "outcome (customInstanceUsingExchange C B ex nm ks d x a) =
           Inl (QUEUE_BUILD_THROWS_ERROR C @ jsToString e)"
    and "outcome (durableInstance C B cs nm) = Inl (QUEUE_BUILD_THROWS_ERROR C @ jsToString e)"
    and "outcome (durableExclusiveInstance C B cs nm) =
           Inl (QUEUE_BUILD_THROWS_ERROR C @ jsToString e)"
    and "outcome (durableNonExclusiveNotAutoDeletedInstance C B cs nm) =
           Inl (QUEUE_BUILD_THROWS_ERROR C @ jsToString e)"
    and "outcome (individualExchangeSubscriberInstance C B ex nm ks) =
           Inl (QUEUE_BUILD_THROWS_ERROR C @ jsToString e)"
    and "outcome (exchangeTemporarySubscriberInstance C B ex) =
           Inl (QUEUE_BUILD_THROWS_ERROR C @ jsToString e)"
    and "outcome (exchangeNamedSubscriberInstance C B ex nm) =
           Inl (QUEUE_BUILD_THROWS_ERROR C @ jsToString e)"
    and "outcome (exchangeTemporaryDirectOrTopicSubscriberInstance C B ex rks) =
           Inl (QUEUE_BUILD_THROWS_ERROR C @ jsToString e)"
  using assms
  by (simp_all add: customInstanceUsingConnectionSetting_def customInstanceUsingExchange_def
        durableInstance_def durableExclusiveInstance_def
        durableNonExclusiveNotAutoDeletedInstance_def individualExchangeSubscriberInstance_def
        exchangeTemporarySubscriberInstance_def exchangeNamedSubscriberInstance_def
        exchangeTemporaryDirectOrTopicSubscriberInstance_def
        Let_def newQueue_fields rejectWith_def)

text \<open>
  A rejected \<^verbatim>\<open>assertQueue\<close> is wrapped by \<^verbatim>\<open>constructQueueAssertion\<close> in an Error
  whose message starts with \<^verbatim>\<open>FAILED_ASSERT_QUEUE\<close>. The three durable recipes on a
  connection setting put \<^verbatim>\<open>FAILED_ASSERT_QUEUE\<close> in front of it.
\<close>

lemma assertion_failure_diagnostic_durable:
  assumes "buildReply B cs None = None" and "\<not> nameMissing nm"
    and "\<And>d x a. assertQueueReply B nm d x a = Inl e"
    and "FAILED_ASSERT_QUEUE C @ jsToString e \<noteq> []"
  shows "outcome (durableInstance C B cs nm) =
           Inl (FAILED_ASSERT_QUEUE C @ ''Error: '' @ FAILED_ASSERT_QUEUE C @ jsToString e)"
    and "outcome (durableExclusiveInstance C B cs nm) =
           Inl (FAILED_ASSERT_QUEUE C @ ''Error: '' @ FAILED_ASSERT_QUEUE C @ jsToString e)"
    and "outcome (durableNonExclusiveNotAutoDeletedInstance C B cs nm) =
           Inl (FAILED_ASSERT_QUEUE C @ ''Error: '' @ FAILED_ASSERT_QUEUE C @ jsToString e)"
  using assms
  by (simp_all add: durableInstance_def durableExclusiveInstance_def
        durableNonExclusiveNotAutoDeletedInstance_def
        Let_def newQueue_fields rejectWith_def constructQueueAssertion_fails)

text \<open>
  The other six recipes put \<^verbatim>\<open>FAILED_BINDING_QUEUE_AND_EXCHANGE\<close> in front of it, also
  \<^verbatim>\<open>customInstanceUsingConnectionSetting\<close>, which binds nothing.
\<close>

lemma assertion_failure_diagnostic_others:
  assumes "buildReply B cs None = None" and "buildReply B None (Some ex) = None"
    and "\<not> nameMissing nm"
    and "\<And>n d x a. assertQueueReply B n d x a = Inl e"
    and "FAILED_ASSERT_QUEUE C @ jsToString e \<noteq> []"
  shows "outcome (customInstanceUsingConnectionSetting C B cs nm d x a) =
           Inl (FAILED_BINDING_QUEUE_AND_EXCHANGE C @ ''Error: '' @ FAILED_ASSERT_QUEUE C
                  @ jsToString e)"
    and "outcome (customInstanceUsingExchange C B ex nm ks d x a) =
           Inl (FAILED_BINDING_QUEUE_AND_EXCHANGE C @ ''Error: '' @ FAILED_ASSERT_QUEUE C
                  @ jsToString e)"
    and "outcome (individualExchangeSubscriberInstance C B ex nm ks) =
           Inl (FAILED_BINDING_QUEUE_AND_EXCHANGE C @ ''Error: '' @ FAILED_ASSERT_QUEUE C
                  @ jsToString e)"
    and "outcome (exchangeTemporarySubscriberInstance C B ex) =
           Inl (FAILED_BINDING_QUEUE_AND_EXCHANGE C @ ''Error: '' @ FAILED_ASSERT_QUEUE C
                  @ jsToString e)"
    and "outcome (exchangeNamedSubscriberInstance C B ex nm) =
           Inl (FAILED_BINDING_QUEUE_AND_EXCHANGE C @ ''Error: '' @ FAILED_ASSERT_QUEUE C
                  @ jsToString e)"
    and "outcome (exchangeTemporaryDirectOrTopicSubscriberInstance C B ex rks) =
           Inl (FAILED_BINDING_QUEUE_AND_EXCHANGE C @ ''Error: '' @ FAILED_ASSERT_QUEUE C
                  @ jsToString e)"
  using assms
  by (simp_all add: customInstanceUsingConnectionSetting_def customInstanceUsingExchange_def
        individualExchangeSubscriberInstance_def
        exchangeTemporarySubscriberInstance_def exchangeNamedSubscriberInstance_def
        exchangeTemporaryDirectOrTopicSubscriberInstance_def
        Let_def newQueue_fields rejectWith_def constructQueueAssertion_fails)

text \<open>
  A rejected \<^verbatim>\<open>bindQueue\<close> of the two recipes with the single empty routing key is
  reported with \<^verbatim>\<open>FAILED_BINDING_QUEUE_AND_EXCHANGE\<close>.
\<close>

lemma single_bind_failure_diagnostic:
  assumes "buildReply B None (Some ex) = None"
    and "\<And>n d x a. assertQueueReply B n d x a = Inr qn"
    and "bindQueueReply B (Some qn) (exchangeName ex) [] = Some e"
  shows "outcome (exchangeTemporarySubscriberInstance C B ex) =
           Inl (FAILED_BINDING_QUEUE_AND_EXCHANGE C @ jsToString e)"
    and "outcome (exchangeNamedSubscriberInstance C B ex nm) =
           Inl (FAILED_BINDING_QUEUE_AND_EXCHANGE C @ jsToString e)"
  using assms
  by (simp_all add: exchangeTemporarySubscriberInstance_def exchangeNamedSubscriberInstance_def
        Let_def newQueue_fields rejectWith_def constructQueueAssertion_ok)

section \<open>Claims\<close>

text \<open>
  Claim C10. \<^verbatim>\<open>constructQueueAssertion\<close> calls \<^verbatim>\<open>setDurable\<close> before it awaits
  \<^verbatim>\<open>assertQueue\<close>. When \<^verbatim>\<open>assertQueue\<close> is rejected, the function throws the
  assertion error, the queue's durability flag already holds the requested value,
  and the queue's name is the one it had before (\<^verbatim>\<open>setName\<close> is not reached).
\<close>

theorem constructQueueAssertion_failure_state:
  assumes "assertQueueReply B (name q) d x a = Inl e"
  shows "fst (constructQueueAssertion C B q d x a) =
           Some (JError (FAILED_ASSERT_QUEUE C @ jsToString e))
       \<and> isDurable (fst (snd (constructQueueAssertion C B q d x a))) = Some d
       \<and> name (fst (snd (constructQueueAssertion C B q d x a))) = name q
       \<and> fst (snd (constructQueueAssertion C B q d x a)) = q\<lparr>isDurable := Some d\<rparr>"
  using assms by (simp add: constructQueueAssertion_fails)

theorem constructQueueAssertion_failure_state_witness:
  "assertQueueReply assertFailBroker (name (newQueue (Some ()) None (Some ''orders'')))
       True False False = Inl (JError ''PRECONDITION_FAILED'')
 \<and> isDurable (newQueue (Some ()) None (Some ''orders'')) = None
 \<and> fst (constructQueueAssertion testConstant assertFailBroker
          (newQueue (Some ()) None (Some ''orders'')) True False False) =
      Some (JError ''assert failed: Error: PRECONDITION_FAILED'')
 \<and> isDurable (fst (snd (constructQueueAssertion testConstant assertFailBroker
          (newQueue (Some ()) None (Some ''orders'')) True False False))) = Some True
 \<and> name (fst (snd (constructQueueAssertion testConstant assertFailBroker
          (newQueue (Some ()) None (Some ''orders'')) True False False))) = Some ''orders''"
proof -
  have h: "assertQueueReply assertFailBroker (name (newQueue (Some ()) None (Some ''orders'')))
             True False False = Inl (JError ''PRECONDITION_FAILED'')"
    by (simp add: assertFailBroker_def okBroker_def)
  from constructQueueAssertion_failure_state [OF h, of testConstant] h show ?thesis
    by (simp add: testConstant_def newQueue_def)
qed

text \<open>
  Claim C7. \<^verbatim>\<open>ack(message)\<close> issues exactly one acknowledgment on the channel, for
  that message and without the \<^verbatim>\<open>allUpTo\<close> flag (a single-message acknowledgment).
  \<^verbatim>\<open>nack(message, requeue)\<close> issues exactly one negative acknowledgment for that
  message, with the multiple flag false and the caller's requeue flag as given.
\<close>

theorem ack_nack_single_delivery:
  "ack log message = log @ [ChannelAck message]
 \<and> allUpToOf (ChannelAck message) = False
 \<and> nack log message requeue = log @ [ChannelNack message False requeue]
 \<and> allUpToOf (ChannelNack message False requeue) = False"
  by (simp add: ack_def nack_def)

text \<open>
  Claim C9. In the per-delivery callback \<^verbatim>\<open>setCurrentMessage(msg)\<close> is called first,
  with that message, and outside the \<^verbatim>\<open>try\<close>. An exception it throws leaves the
  callback: nothing is emitted, \<^verbatim>\<open>handleMessage\<close> is not called, and the run of
  deliveries ends with that exception. An exception of \<^verbatim>\<open>handleMessage\<close>, and only
  that, is caught: it does not leave the callback as thrown but is handed to
  \<^verbatim>\<open>this.emit\<close>, and the callback ends the way that call ends.
\<close>

theorem setCurrentMessage_exception_propagates:
  "hd (snd (consumeCallback C E L msg)) = SetCurrentMessage msg
 \<and> (setCurrentMessage L msg = Some e \<longrightarrow>
       consumeCallback C E L msg = (Some e, [SetCurrentMessage msg])
     \<and> deliverAll C E L (msg # msgs) = (Some e, [SetCurrentMessage msg]))
 \<and> (setCurrentMessage L msg = None \<and> handleMessage L msg = Some e' \<longrightarrow>
       consumeCallback C E L msg =
         (emitReply E (MESSAGE_CONSUMER_ERROR_EVENT_NAME C) e',
          [SetCurrentMessage msg, HandleMessage msg,
           Emit (MESSAGE_CONSUMER_ERROR_EVENT_NAME C) e']))
 \<and> (setCurrentMessage L msg = None \<and> handleMessage L msg = None \<longrightarrow>
       consumeCallback C E L msg = (None, [SetCurrentMessage msg, HandleMessage msg]))"
  by (simp add: consumeCallback_def split: option.splits)

theorem setCurrentMessage_exception_propagates_witness:
  "setCurrentMessage brokenSetterListener 1 = Some (JError ''frozen'')
 \<and> consumeCallback testConstant quietEmitter brokenSetterListener 1 =
     (Some (JError ''frozen''), [SetCurrentMessage 1])
 \<and> deliverAll testConstant quietEmitter brokenSetterListener [1, 2] =
     (Some (JError ''frozen''), [SetCurrentMessage 1])
 \<and> setCurrentMessage brokenSetterListener 2 = None
 \<and> handleMessage brokenSetterListener 2 = None
 \<and> consumeCallback testConstant quietEmitter brokenSetterListener 2 =
     (None, [SetCurrentMessage 2, HandleMessage 2])
 \<and> setCurrentMessage throwingListener 1 = None
 \<and> handleMessage throwingListener 1 = Some (JError ''boom'')
 \<and> consumeCallback testConstant throwingSubscriberEmitter throwingListener 1 =
     (Some (JError ''subscriber failed''),
      [SetCurrentMessage 1, HandleMessage 1,
       Emit ''MessageConsumerError'' (JError ''boom'')])"
proof -
  have h1: "setCurrentMessage brokenSetterListener 1 = Some (JError ''frozen'')"
    and h2: "setCurrentMessage brokenSetterListener 2 = None"
    and h3: "handleMessage brokenSetterListener 2 = None"
    by (simp_all add: brokenSetterListener_def)
  have h4: "setCurrentMessage throwingListener 1 = None"
    and h5: "handleMessage throwingListener 1 = Some (JError ''boom'')"
    by (simp_all add: throwingListener_def)
  have em: "\<And>ev x. emitReply throwingSubscriberEmitter ev x = Some (JError ''subscriber failed'')"
    and nm: "MESSAGE_CONSUMER_ERROR_EVENT_NAME testConstant = ''MessageConsumerError''"
    by (simp_all add: throwingSubscriberEmitter_def testConstant_def)
  from setCurrentMessage_exception_propagates
         [of testConstant quietEmitter brokenSetterListener 1 "JError ''frozen''" "[2]"] h1
  have a: "consumeCallback testConstant quietEmitter brokenSetterListener 1 =
             (Some (JError ''frozen''), [SetCurrentMessage 1])"
    and b: "deliverAll testConstant quietEmitter brokenSetterListener [1, 2] =
             (Some (JError ''frozen''), [SetCurrentMessage 1])"
    by blast+
  from setCurrentMessage_exception_propagates
         [of testConstant quietEmitter brokenSetterListener 2] h2 h3
  have c: "consumeCallback testConstant quietEmitter brokenSetterListener 2 =
             (None, [SetCurrentMessage 2, HandleMessage 2])"
    by blast
  from setCurrentMessage_exception_propagates
         [of testConstant throwingSubscriberEmitter throwingListener 1 _ _ "JError ''boom''"]
       h4 h5
  have d: "consumeCallback testConstant throwingSubscriberEmitter throwingListener 1 =
     (Some (JError ''subscriber failed''),
      [SetCurrentMessage 1, HandleMessage 1,
       Emit ''MessageConsumerError'' (JError ''boom'')])"
    by (simp add: em nm)
  from h1 h2 h3 h4 h5 a b c d show ?thesis by blast
qed

text \<open>
  Claim C6, as stated: whenever \<^verbatim>\<open>handleMessage\<close> throws synchronously, the exception
  is caught, one event is emitted, nothing is propagated to the broker layer and the
  deliveries that follow are still handled. The callback calls \<^verbatim>\<open>this.emit\<close> in the
  \<^verbatim>\<open>catch\<close> block, outside any \<^verbatim>\<open>try\<close>: with a subscriber of the event that
  throws, the subscriber's exception leaves the callback and the next delivery is not
  handled.
\<close>

theorem handler_exception_isolated_counterexample:
  "setCurrentMessage throwingListener 1 = None
 \<and> handleMessage throwingListener 1 = Some (JError ''boom'')
 \<and> consumeCallback testConstant throwingSubscriberEmitter throwingListener 1 =
     (Some (JError ''subscriber failed''),
      [SetCurrentMessage 1, HandleMessage 1,
       Emit ''MessageConsumerError'' (JError ''boom'')])
 \<and> deliverAll testConstant throwingSubscriberEmitter throwingListener [1, 2] =
     (Some (JError ''subscriber failed''),
      [SetCurrentMessage 1, HandleMessage 1,
       Emit ''MessageConsumerError'' (JError ''boom'')])"
  by (simp add: consumeCallback_def throwingListener_def throwingSubscriberEmitter_def
        testConstant_def)

text \<open>
  Claim C6, amended. When \<^verbatim>\<open>handleMessage\<close> throws synchronously for a delivery, the
  callback catches the exception and emits exactly one event
  \<^verbatim>\<open>MESSAGE_CONSUMER_ERROR_EVENT_NAME\<close> carrying that exception, and the callback
  itself issues no ack and no nack. The callback ends the way \<^verbatim>\<open>this.emit\<close> ends:
  when emitting returns, no exception reaches the broker layer and the deliveries that
  follow are handled as they would be without this one.
\<close>

theorem handler_exception_isolated:
  assumes "setCurrentMessage L msg = None" and "handleMessage L msg = Some e"
  shows "consumeCallback C E L msg =
           (emitReply E (MESSAGE_CONSUMER_ERROR_EVENT_NAME C) e,
            [SetCurrentMessage msg, HandleMessage msg,
             Emit (MESSAGE_CONSUMER_ERROR_EVENT_NAME C) e])
       \<and> filter isEmit (snd (consumeCallback C E L msg)) =
           [Emit (MESSAGE_CONSUMER_ERROR_EVENT_NAME C) e]
       \<and> filter isAckOrNack (snd (consumeCallback C E L msg)) = []
       \<and> (emitReply E (MESSAGE_CONSUMER_ERROR_EVENT_NAME C) e = None \<longrightarrow>
            fst (consumeCallback C E L msg) = None
          \<and> deliverAll C E L (msg # msgs) =
              (fst (deliverAll C E L msgs),
               snd (consumeCallback C E L msg) @ snd (deliverAll C E L msgs)))"
  using assms by (simp add: consumeCallback_def split: prod.splits)

theorem handler_exception_isolated_witness:
  "setCurrentMessage throwingListener 1 = None
 \<and> handleMessage throwingListener 1 = Some (JError ''boom'')
 \<and> emitReply quietEmitter (MESSAGE_CONSUMER_ERROR_EVENT_NAME testConstant) (JError ''boom'')
      = None
 \<and> consumeCallback testConstant quietEmitter throwingListener 1 =
     (None, [SetCurrentMessage 1, HandleMessage 1,
             Emit ''MessageConsumerError'' (JError ''boom'')])
 \<and> deliverAll testConstant quietEmitter throwingListener [1, 2] =
     (None, [SetCurrentMessage 1, HandleMessage 1,
             Emit ''MessageConsumerError'' (JError ''boom''),
             SetCurrentMessage 2, HandleMessage 2])"
proof -
  have h1: "setCurrentMessage throwingListener 1 = None"
    and h2: "handleMessage throwingListener 1 = Some (JError ''boom'')"
    by (simp_all add: throwingListener_def)
  have h3: "emitReply quietEmitter (MESSAGE_CONSUMER_ERROR_EVENT_NAME testConstant)
              (JError ''boom'') = None"
    by (simp add: quietEmitter_def)
  have rest: "deliverAll testConstant quietEmitter throwingListener [2] =
                (None, [SetCurrentMessage 2, HandleMessage 2])"
    by (simp add: consumeCallback_def throwingListener_def)
  from handler_exception_isolated [OF h1 h2, of testConstant quietEmitter "[2]"] h1 h2 h3 rest
  show ?thesis by (simp add: testConstant_def)
qed

text \<open>
  Claim C8. \<^verbatim>\<open>durableInstance\<close> and \<^verbatim>\<open>durableNonExclusiveNotAutoDeletedInstance\<close> are
  equivalent for the caller: for every connection setting, name and broker they settle
  in the same way and issue the same calls. Both reject a missing name with
  \<^verbatim>\<open>INDIVIDUAL_SUBSCRIBER_MUST_HAS_NAME\<close> and no call; both reject a failed
  \<^verbatim>\<open>build()\<close> with \<^verbatim>\<open>QUEUE_BUILD_THROWS_ERROR\<close> and its cause, after the
  construction and \<^verbatim>\<open>build()\<close> only; otherwise both issue exactly one
  \<^verbatim>\<open>assertQueue\<close> for the caller's name with durable = true, exclusive = false,
  autoDelete = false, and resolve with the queue under the name the broker replied
  with, or reject with \<^verbatim>\<open>FAILED_ASSERT_QUEUE\<close> and the wrapped cause.
\<close>

theorem durableInstance_equiv_durableNonExclusiveNotAutoDeletedInstance:
  "outcome (durableInstance C B cs nm) =
     outcome (durableNonExclusiveNotAutoDeletedInstance C B cs nm)
 \<and> calls (durableInstance C B cs nm) =
     calls (durableNonExclusiveNotAutoDeletedInstance C B cs nm)
 \<and> (nameMissing nm \<longrightarrow>
       outcome (durableNonExclusiveNotAutoDeletedInstance C B cs nm) =
         Inl (INDIVIDUAL_SUBSCRIBER_MUST_HAS_NAME C)
     \<and> calls (durableNonExclusiveNotAutoDeletedInstance C B cs nm) = [])
 \<and> (\<not> nameMissing nm \<and> buildReply B cs None = Some e \<longrightarrow>
       outcome (durableNonExclusiveNotAutoDeletedInstance C B cs nm) =
         Inl (QUEUE_BUILD_THROWS_ERROR C @ jsToString e)
     \<and> calls (durableNonExclusiveNotAutoDeletedInstance C B cs nm) =
         [Construct cs None nm, Build])
 \<and> (\<not> nameMissing nm \<and> buildReply B cs None = None
      \<and> assertQueueReply B nm True False False = Inr n \<longrightarrow>
       outcome (durableNonExclusiveNotAutoDeletedInstance C B cs nm) =
         Inr \<lparr>connectionSetting = cs, brokerChannel = None, name = Some n,
              isDurable = Some True\<rparr>
     \<and> calls (durableNonExclusiveNotAutoDeletedInstance C B cs nm) =
         [Construct cs None nm, Build, AssertQueue nm True False False])
 \<and> (\<not> nameMissing nm \<and> buildReply B cs None = None
      \<and> assertQueueReply B nm True False False = Inl e' \<longrightarrow>
       outcome (durableNonExclusiveNotAutoDeletedInstance C B cs nm) =
         Inl (FAILED_ASSERT_QUEUE C
                @ jsToString (JError (FAILED_ASSERT_QUEUE C @ jsToString e')))
     \<and> calls (durableNonExclusiveNotAutoDeletedInstance C B cs nm) =
         [Construct cs None nm, Build, AssertQueue nm True False False])"
proof (intro conjI impI; (elim conjE)?)
  show "outcome (durableInstance C B cs nm) =
     outcome (durableNonExclusiveNotAutoDeletedInstance C B cs nm)"
    by (simp add: durableInstance_def durableNonExclusiveNotAutoDeletedInstance_def
          rejectWith_def resolveWith_def Let_def split: option.splits prod.splits)
  show "calls (durableInstance C B cs nm) =
     calls (durableNonExclusiveNotAutoDeletedInstance C B cs nm)"
    by (simp add: durableInstance_def durableNonExclusiveNotAutoDeletedInstance_def
          rejectWith_def resolveWith_def Let_def split: option.splits prod.splits)
  {
    assume "nameMissing nm"
    then show "outcome (durableNonExclusiveNotAutoDeletedInstance C B cs nm) =
                 Inl (INDIVIDUAL_SUBSCRIBER_MUST_HAS_NAME C)"
      and "calls (durableNonExclusiveNotAutoDeletedInstance C B cs nm) = []"
      by (simp_all add: durableNonExclusiveNotAutoDeletedInstance_def rejectWith_def)
  }
  {
    assume "\<not> nameMissing nm" and "buildReply B cs None = Some e"
    then show "outcome (durableNonExclusiveNotAutoDeletedInstance C B cs nm) =
                 Inl (QUEUE_BUILD_THROWS_ERROR C @ jsToString e)"
      and "calls (durableNonExclusiveNotAutoDeletedInstance C B cs nm) =
             [Construct cs None nm, Build]"
      by (simp_all add: durableNonExclusiveNotAutoDeletedInstance_def rejectWith_def
            Let_def newQueue_fields)
  }
  {
    assume "\<not> nameMissing nm" and "buildReply B cs None = None"
      and "assertQueueReply B nm True False False = Inr n"
    then show "outcome (durableNonExclusiveNotAutoDeletedInstance C B cs nm) =
         Inr \<lparr>connectionSetting = cs, brokerChannel = None, name = Some n,
              isDurable = Some True\<rparr>"
      and "calls (durableNonExclusiveNotAutoDeletedInstance C B cs nm) =
         [Construct cs None nm, Build, AssertQueue nm True False False]"
      by (simp_all add: durableNonExclusiveNotAutoDeletedInstance_def resolveWith_def
            Let_def newQueue_connectionSetting constructQueueAssertion_ok)
  }
  {
    assume "\<not> nameMissing nm" and "buildReply B cs None = None"
      and "assertQueueReply B nm True False False = Inl e'"
    then show "outcome (durableNonExclusiveNotAutoDeletedInstance C B cs nm) =
         Inl (FAILED_ASSERT_QUEUE C
                @ jsToString (JError (FAILED_ASSERT_QUEUE C @ jsToString e')))"
      and "calls (durableNonExclusiveNotAutoDeletedInstance C B cs nm) =
         [Construct cs None nm, Build, AssertQueue nm True False False]"
      by (simp_all add: durableNonExclusiveNotAutoDeletedInstance_def rejectWith_def
            Let_def newQueue_fields constructQueueAssertion_fails del: jsToString.simps)
  }
qed

theorem durableInstance_equiv_durableNonExclusiveNotAutoDeletedInstance_witness:
  "nameMissing (Some [])
 \<and> outcome (durableInstance testConstant namedReplyBroker (Some ()) (Some [])) =
     Inl ''name required''
 \<and> calls (durableInstance testConstant namedReplyBroker (Some ()) (Some [])) = []
 \<and> \<not> nameMissing (Some ''orders'')
 \<and> buildReply buildFailBroker (Some ()) None = Some (JError ''ECONNREFUSED'')
 \<and> outcome (durableInstance testConstant buildFailBroker (Some ()) (Some ''orders'')) =
     Inl ''build failed: Error: ECONNREFUSED''
 \<and> buildReply namedReplyBroker (Some ()) None = None
 \<and> assertQueueReply namedReplyBroker (Some ''orders'') True False False = Inr ''orders.q1''
 \<and> outcome (durableInstance testConstant namedReplyBroker (Some ()) (Some ''orders'')) =
     Inr \<lparr>connectionSetting = Some (), brokerChannel = None, name = Some ''orders.q1'',
          isDurable = Some True\<rparr>
 \<and> calls (durableInstance testConstant namedReplyBroker (Some ()) (Some ''orders'')) =
     [Construct (Some ()) None (Some ''orders''), Build,
      AssertQueue (Some ''orders'') True False False]
 \<and> buildReply assertFailBroker (Some ()) None = None
 \<and> assertQueueReply assertFailBroker (Some ''orders'') True False False =
     Inl (JError ''PRECONDITION_FAILED'')
 \<and> outcome (durableInstance testConstant assertFailBroker (Some ()) (Some ''orders'')) =
     Inl ''assert failed: Error: assert failed: Error: PRECONDITION_FAILED''
 \<and> calls (durableInstance testConstant assertFailBroker (Some ()) (Some ''orders'')) =
     [Construct (Some ()) None (Some ''orders''), Build,
      AssertQueue (Some ''orders'') True False False]"
proof -
  have g1: "nameMissing (Some [])" and g2: "\<not> nameMissing (Some ''orders'')"
    by (simp_all add: nameMissing_def)
  have b1: "buildReply buildFailBroker (Some ()) None = Some (JError ''ECONNREFUSED'')"
    and b2: "buildReply namedReplyBroker (Some ()) None = None"
    and b3: "buildReply assertFailBroker (Some ()) None = None"
    by (simp_all add: buildFailBroker_def namedReplyBroker_def assertFailBroker_def okBroker_def)
  have r2: "assertQueueReply namedReplyBroker (Some ''orders'') True False False =
              Inr ''orders.q1''"
    and r3: "assertQueueReply assertFailBroker (Some ''orders'') True False False =
              Inl (JError ''PRECONDITION_FAILED'')"
    by (simp_all add: namedReplyBroker_def assertFailBroker_def okBroker_def)
  note missing = durableInstance_equiv_durableNonExclusiveNotAutoDeletedInstance
      [of testConstant namedReplyBroker "Some ()" "Some []"]
  note buildfail = durableInstance_equiv_durableNonExclusiveNotAutoDeletedInstance
      [of testConstant buildFailBroker "Some ()" "Some ''orders''" "JError ''ECONNREFUSED''"]
  note resolved = durableInstance_equiv_durableNonExclusiveNotAutoDeletedInstance
      [of testConstant namedReplyBroker "Some ()" "Some ''orders''" _ "''orders.q1''"]
  note assertfail = durableInstance_equiv_durableNonExclusiveNotAutoDeletedInstance
      [of testConstant assertFailBroker "Some ()" "Some ''orders''" _ _
          "JError ''PRECONDITION_FAILED''"]
  have m: "outcome (durableInstance testConstant namedReplyBroker (Some ()) (Some [])) =
             Inl ''name required''
         \<and> calls (durableInstance testConstant namedReplyBroker (Some ()) (Some [])) = []"
    using missing g1 by (simp add: testConstant_def)
  have f: "outcome (durableInstance testConstant buildFailBroker (Some ()) (Some ''orders'')) =
             Inl ''build failed: Error: ECONNREFUSED''"
    using buildfail g2 b1 by (simp add: testConstant_def)
  have r: "outcome (durableInstance testConstant namedReplyBroker (Some ()) (Some ''orders'')) =
             Inr \<lparr>connectionSetting = Some (), brokerChannel = None,
                  name = Some ''orders.q1'', isDurable = Some True\<rparr>
         \<and> calls (durableInstance testConstant namedReplyBroker (Some ()) (Some ''orders'')) =
             [Construct (Some ()) None (Some ''orders''), Build,
              AssertQueue (Some ''orders'') True False False]"
    using resolved g2 b2 r2 by simp
  have a: "outcome (durableInstance testConstant assertFailBroker (Some ()) (Some ''orders'')) =
             Inl ''assert failed: Error: assert failed: Error: PRECONDITION_FAILED''
         \<and> calls (durableInstance testConstant assertFailBroker (Some ()) (Some ''orders'')) =
             [Construct (Some ()) None (Some ''orders''), Build,
              AssertQueue (Some ''orders'') True False False]"
    using assertfail g2 b3 r3 by (simp add: testConstant_def)
  from g1 g2 b1 b2 b3 r2 r3 m f r a show ?thesis by blast
qed

text \<open>
  The two recipes are not the same function: when \<^verbatim>\<open>build()\<close> fails,
  \<^verbatim>\<open>durableInstance\<close> gives the diagnostic to \<^verbatim>\<open>debugError\<close> and the other recipe
  does not. The log is not part of what the caller receives.
\<close>

lemma durable_recipes_differ_in_debugLog:
  "debugLog (durableInstance testConstant buildFailBroker (Some ()) (Some ''orders'')) =
     [''build failed: Error: ECONNREFUSED'']
 \<and> debugLog (durableNonExclusiveNotAutoDeletedInstance testConstant buildFailBroker
      (Some ()) (Some ''orders'')) = []"
  by (simp add: durableInstance_def durableNonExclusiveNotAutoDeletedInstance_def
        buildFailBroker_def okBroker_def testConstant_def newQueue_def nameMissing_def
        rejectWith_def)

text \<open>
  Claim C4. Every \<^verbatim>\<open>assertQueue\<close> issued by a durable recipe (\<^verbatim>\<open>durableInstance\<close>,
  \<^verbatim>\<open>durableExclusiveInstance\<close>, \<^verbatim>\<open>durableNonExclusiveNotAutoDeletedInstance\<close>,
  \<^verbatim>\<open>individualExchangeSubscriberInstance\<close>, \<^verbatim>\<open>exchangeNamedSubscriberInstance\<close>)
  carries durable = true, and every one issued by a temporary recipe
  (\<^verbatim>\<open>exchangeTemporarySubscriberInstance\<close>,
  \<^verbatim>\<open>exchangeTemporaryDirectOrTopicSubscriberInstance\<close>) carries exactly durable = false,
  exclusive = true, autoDelete = true. An invocation issues one \<^verbatim>\<open>assertQueue\<close>
  when the name guard (where the recipe has one) and \<^verbatim>\<open>build()\<close> pass, and none
  otherwise.
\<close>

theorem recipes_asserted_flags:
  "assertedFlags (calls (durableInstance C B cs nm)) =
     (if nameMissing nm then [] else case buildReply B cs None of Some e \<Rightarrow> [] | None \<Rightarrow> [(True, False, False)])
 \<and> assertedFlags (calls (durableExclusiveInstance C B cs nm)) =
     (if nameMissing nm then [] else case buildReply B cs None of Some e \<Rightarrow> [] | None \<Rightarrow> [(True, True, False)])
 \<and> assertedFlags (calls (durableNonExclusiveNotAutoDeletedInstance C B cs nm)) =
     (if nameMissing nm then [] else case buildReply B cs None of Some e \<Rightarrow> [] | None \<Rightarrow> [(True, False, False)])
 \<and> assertedFlags (calls (individualExchangeSubscriberInstance C B ex nm keys)) =
     (if nameMissing nm then [] else case buildReply B None (Some ex) of Some e \<Rightarrow> [] | None \<Rightarrow> [(True, False, False)])
 \<and> assertedFlags (calls (exchangeNamedSubscriberInstance C B ex nm)) =
     (case buildReply B None (Some ex) of Some e \<Rightarrow> [] | None \<Rightarrow> [(True, False, False)])
 \<and> assertedFlags (calls (exchangeTemporarySubscriberInstance C B ex)) =
     (case buildReply B None (Some ex) of Some e \<Rightarrow> [] | None \<Rightarrow> [(False, True, True)])
 \<and> assertedFlags (calls (exchangeTemporaryDirectOrTopicSubscriberInstance C B ex rks)) =
     (case buildReply B None (Some ex) of Some e \<Rightarrow> [] | None \<Rightarrow> [(False, True, True)])"
proof (intro conjI)
  show "assertedFlags (calls (durableInstance C B cs nm)) =
     (if nameMissing nm then [] else case buildReply B cs None of Some e \<Rightarrow> [] | None \<Rightarrow> [(True, False, False)])"
    by (auto simp: durableInstance_def rejectWith_def resolveWith_def Let_def newQueue_fields
          assertedFlags_append assertedFlags_bindQueueCalls
          split: option.splits prod.splits dest: assertedFlags_constructQueueAssertion)
  show "assertedFlags (calls (durableExclusiveInstance C B cs nm)) =
     (if nameMissing nm then [] else case buildReply B cs None of Some e \<Rightarrow> [] | None \<Rightarrow> [(True, True, False)])"
    by (auto simp: durableExclusiveInstance_def rejectWith_def resolveWith_def Let_def newQueue_fields
          assertedFlags_append assertedFlags_bindQueueCalls
          split: option.splits prod.splits dest: assertedFlags_constructQueueAssertion)
  show "assertedFlags (calls (durableNonExclusiveNotAutoDeletedInstance C B cs nm)) =
     (if nameMissing nm then [] else case buildReply B cs None of Some e \<Rightarrow> [] | None \<Rightarrow> [(True, False, False)])"
    by (auto simp: durableNonExclusiveNotAutoDeletedInstance_def rejectWith_def resolveWith_def Let_def newQueue_fields
          assertedFlags_append assertedFlags_bindQueueCalls
          split: option.splits prod.splits dest: assertedFlags_constructQueueAssertion)
  show "assertedFlags (calls (individualExchangeSubscriberInstance C B ex nm keys)) =
     (if nameMissing nm then [] else case buildReply B None (Some ex) of Some e \<Rightarrow> [] | None \<Rightarrow> [(True, False, False)])"
    by (auto simp: individualExchangeSubscriberInstance_def rejectWith_def resolveWith_def Let_def newQueue_fields
          assertedFlags_append assertedFlags_bindQueueCalls
          split: option.splits prod.splits dest: assertedFlags_constructQueueAssertion)
  show "assertedFlags (calls (exchangeNamedSubscriberInstance C B ex nm)) =
     (case buildReply B None (Some ex) of Some e \<Rightarrow> [] | None \<Rightarrow> [(True, False, False)])"
    by (auto simp: exchangeNamedSubscriberInstance_def rejectWith_def resolveWith_def Let_def newQueue_fields
          assertedFlags_append assertedFlags_bindQueueCalls
          split: option.splits prod.splits dest: assertedFlags_constructQueueAssertion)
  show "assertedFlags (calls (exchangeTemporarySubscriberInstance C B ex)) =
     (case buildReply B None (Some ex) of Some e \<Rightarrow> [] | None \<Rightarrow> [(False, True, True)])"
    by (auto simp: exchangeTemporarySubscriberInstance_def rejectWith_def resolveWith_def Let_def newQueue_fields
          assertedFlags_append assertedFlags_bindQueueCalls
          split: option.splits prod.splits dest: assertedFlags_constructQueueAssertion)
  show "assertedFlags (calls (exchangeTemporaryDirectOrTopicSubscriberInstance C B ex rks)) =
     (case buildReply B None (Some ex) of Some e \<Rightarrow> [] | None \<Rightarrow> [(False, True, True)])"
    by (auto simp: exchangeTemporaryDirectOrTopicSubscriberInstance_def rejectWith_def resolveWith_def Let_def newQueue_fields
          assertedFlags_append assertedFlags_bindQueueCalls
          split: option.splits prod.splits dest: assertedFlags_constructQueueAssertion)
qed


theorem recipes_asserted_flags_witness:
  "assertedFlags (calls (durableInstance testConstant okBroker (Some ()) (Some ''orders''))) =
     [(True, False, False)]
 \<and> assertedFlags (calls (durableExclusiveInstance testConstant okBroker (Some ())
      (Some ''orders''))) = [(True, True, False)]
 \<and> assertedFlags (calls (exchangeNamedSubscriberInstance testConstant okBroker testExchange
      (Some ''orders''))) = [(True, False, False)]
 \<and> assertedFlags (calls (exchangeTemporarySubscriberInstance testConstant okBroker
      testExchange)) = [(False, True, True)]
 \<and> assertedFlags (calls (exchangeTemporaryDirectOrTopicSubscriberInstance testConstant okBroker
      testExchange [''a'', ''b''])) = [(False, True, True)]"
  using recipes_asserted_flags
          [of testConstant okBroker "Some ()" "Some ''orders''" testExchange None "[''a'', ''b'']"]
  by (simp add: okBroker_def nameMissing_def)

text \<open>
  Claim C3. When an anonymous-name recipe (\<^verbatim>\<open>exchangeTemporarySubscriberInstance\<close>,
  \<^verbatim>\<open>exchangeTemporaryDirectOrTopicSubscriberInstance\<close>) resolves, the name of the
  resolved queue is the queue name of the broker's \<^verbatim>\<open>assertQueue\<close> reply to the
  request made with the empty name, and every \<^verbatim>\<open>bindQueue\<close> the recipe issued
  carries that broker-assigned name.
\<close>

theorem anonymous_recipes_adopt_broker_name:
  "(outcome (exchangeTemporarySubscriberInstance C B ex) = Inr q \<longrightarrow>
      (\<exists>n. assertQueueReply B (Some []) False True True = Inr n \<and> name q = Some n \<and>
           filter isBindQueue (calls (exchangeTemporarySubscriberInstance C B ex)) =
             [BindQueue (Some n) (exchangeName ex) []]))
 \<and> (outcome (exchangeTemporaryDirectOrTopicSubscriberInstance C B ex rks) = Inr q' \<longrightarrow>
      (\<exists>n. assertQueueReply B (Some []) False True True = Inr n \<and> name q' = Some n \<and>
           filter isBindQueue (calls (exchangeTemporaryDirectOrTopicSubscriberInstance C B ex rks)) =
             map (BindQueue (Some n) (exchangeName ex)) rks))"
proof (intro conjI impI)
  assume a: "outcome (exchangeTemporarySubscriberInstance C B ex) = Inr q"
  show "\<exists>n. assertQueueReply B (Some []) False True True = Inr n \<and> name q = Some n \<and>
           filter isBindQueue (calls (exchangeTemporarySubscriberInstance C B ex)) =
             [BindQueue (Some n) (exchangeName ex) []]"
  proof (cases "assertQueueReply B (Some []) False True True")
    case (Inl e)
    with a show ?thesis
      by (simp add: exchangeTemporarySubscriberInstance_def Let_def newQueue_fields
            constructQueueAssertion_fails rejectWith_def split: option.splits)
  next
    case (Inr n)
    with a show ?thesis
      by (auto simp: exchangeTemporarySubscriberInstance_def Let_def newQueue_fields
            constructQueueAssertion_ok rejectWith_def resolveWith_def split: option.splits)
  qed
next
  assume a: "outcome (exchangeTemporaryDirectOrTopicSubscriberInstance C B ex rks) = Inr q'"
  show "\<exists>n. assertQueueReply B (Some []) False True True = Inr n \<and> name q' = Some n \<and>
           filter isBindQueue (calls (exchangeTemporaryDirectOrTopicSubscriberInstance C B ex rks)) =
             map (BindQueue (Some n) (exchangeName ex)) rks"
  proof (cases "assertQueueReply B (Some []) False True True")
    case (Inl e)
    with a show ?thesis
      by (simp add: exchangeTemporaryDirectOrTopicSubscriberInstance_def Let_def newQueue_fields
            constructQueueAssertion_fails rejectWith_def split: option.splits)
  next
    case (Inr n)
    with a show ?thesis
      by (auto simp: exchangeTemporaryDirectOrTopicSubscriberInstance_def Let_def newQueue_fields
            constructQueueAssertion_ok rejectWith_def resolveWith_def bindQueueCalls_name
            filter_isBindQueue_map split: option.splits)
  qed
qed



theorem anonymous_recipes_adopt_broker_name_witness:
  "outcome (exchangeTemporarySubscriberInstance testConstant okBroker testExchange) =
     Inr \<lparr>connectionSetting = None, brokerChannel = Some testExchange,
          name = Some ''amq.gen-1'', isDurable = Some False\<rparr>
 \<and> filter isBindQueue (calls (exchangeTemporarySubscriberInstance testConstant okBroker
      testExchange)) = [BindQueue (Some ''amq.gen-1'') ''events'' []]
 \<and> outcome (exchangeTemporaryDirectOrTopicSubscriberInstance testConstant okBroker testExchange
      [''a'', ''b'']) =
     Inr \<lparr>connectionSetting = None, brokerChannel = Some testExchange,
          name = Some ''amq.gen-1'', isDurable = Some False\<rparr>
 \<and> filter isBindQueue (calls (exchangeTemporaryDirectOrTopicSubscriberInstance testConstant
      okBroker testExchange [''a'', ''b''])) =
     [BindQueue (Some ''amq.gen-1'') ''events'' ''a'',
      BindQueue (Some ''amq.gen-1'') ''events'' ''b'']"
proof -
  let ?q = "\<lparr>connectionSetting = None, brokerChannel = Some testExchange,
             name = Some ''amq.gen-1'', isDurable = Some False\<rparr> :: unit Queue"
  have reply: "assertQueueReply okBroker (Some []) False True True = Inr ''amq.gen-1''"
    by (simp add: okBroker_def)
  have h1: "outcome (exchangeTemporarySubscriberInstance testConstant okBroker testExchange) =
              Inr ?q"
    by (simp add: exchangeTemporarySubscriberInstance_def okBroker_def newQueue_def
          constructQueueAssertion_def setDurable_def setName_def resolveWith_def Let_def)
  have h2: "outcome (exchangeTemporaryDirectOrTopicSubscriberInstance testConstant okBroker
              testExchange [''a'', ''b'']) = Inr ?q"
    by (simp add: exchangeTemporaryDirectOrTopicSubscriberInstance_def okBroker_def newQueue_def
          constructQueueAssertion_def setDurable_def setName_def resolveWith_def Let_def
          bindQueueReplies_def)
  from anonymous_recipes_adopt_broker_name
         [of testConstant okBroker testExchange ?q "[''a'', ''b'']" ?q] h1 h2 reply
  show ?thesis by (simp add: testExchange_def)
qed

text \<open>
  Claim C5. For an exchange-bound recipe that takes a list of routing keys
  (\<^verbatim>\<open>customInstanceUsingExchange\<close>, \<^verbatim>\<open>individualExchangeSubscriberInstance\<close>,
  \<^verbatim>\<open>exchangeTemporaryDirectOrTopicSubscriberInstance\<close>): after a successful assertion
  the recipe issues exactly one \<^verbatim>\<open>bindQueue\<close> per routing key, in the order of the
  list, each with the queue's name after the assertion, the exchange's name and that
  key, and nothing else. When every bind succeeds the recipe resolves with the queue;
  when at least one bind is rejected the recipe rejects with
  \<^verbatim>\<open>FAILED_BINDING_QUEUE_AND_EXCHANGE\<close> followed by the rejection of one of the binds,
  and no queue is resolved.
\<close>

theorem binding_fan_out:
  assumes build: "buildReply B None (Some ex) = None"
  shows
  "(\<not> nameMissing nm \<and>
    assertQueueReply B nm (orDefault True d) (orDefault False x) (orDefault False a) = Inr n \<longrightarrow>
      calls (customInstanceUsingExchange C B ex nm (Some keys) d x a) =
        [Construct None (Some ex) nm, Build,
         AssertQueue nm (orDefault True d) (orDefault False x) (orDefault False a)]
        @ map (BindQueue (Some n) (exchangeName ex)) keys
    \<and> ((\<forall>k \<in> set keys. bindQueueReply B (Some n) (exchangeName ex) k = None) \<longrightarrow>
          outcome (customInstanceUsingExchange C B ex nm (Some keys) d x a) =
            Inr \<lparr>connectionSetting = None, brokerChannel = Some ex, name = Some n,
                 isDurable = Some (orDefault True d)\<rparr>)
    \<and> ((\<exists>k \<in> set keys. bindQueueReply B (Some n) (exchangeName ex) k \<noteq> None) \<longrightarrow>
          (\<exists>e. Some e \<in> bindQueueReply B (Some n) (exchangeName ex) ` set keys \<and>
               outcome (customInstanceUsingExchange C B ex nm (Some keys) d x a) =
                 Inl (FAILED_BINDING_QUEUE_AND_EXCHANGE C @ jsToString e))))
 \<and> (\<not> nameMissing nm \<and> assertQueueReply B nm True False False = Inr n \<longrightarrow>
      calls (individualExchangeSubscriberInstance C B ex nm (Some keys)) =
        [Construct None (Some ex) nm, Build, AssertQueue nm True False False]
        @ map (BindQueue (Some n) (exchangeName ex)) keys
    \<and> ((\<forall>k \<in> set keys. bindQueueReply B (Some n) (exchangeName ex) k = None) \<longrightarrow>
          outcome (individualExchangeSubscriberInstance C B ex nm (Some keys)) =
            Inr \<lparr>connectionSetting = None, brokerChannel = Some ex, name = Some n,
                 isDurable = Some True\<rparr>)
    \<and> ((\<exists>k \<in> set keys. bindQueueReply B (Some n) (exchangeName ex) k \<noteq> None) \<longrightarrow>
          (\<exists>e. Some e \<in> bindQueueReply B (Some n) (exchangeName ex) ` set keys \<and>
               outcome (individualExchangeSubscriberInstance C B ex nm (Some keys)) =
                 Inl (FAILED_BINDING_QUEUE_AND_EXCHANGE C @ jsToString e))))
 \<and> (assertQueueReply B (Some []) False True True = Inr n \<longrightarrow>
      calls (exchangeTemporaryDirectOrTopicSubscriberInstance C B ex keys) =
        [Construct None (Some ex) (Some []), Build, AssertQueue (Some []) False True True]
        @ map (BindQueue (Some n) (exchangeName ex)) keys
    \<and> ((\<forall>k \<in> set keys. bindQueueReply B (Some n) (exchangeName ex) k = None) \<longrightarrow>
          outcome (exchangeTemporaryDirectOrTopicSubscriberInstance C B ex keys) =
            Inr \<lparr>connectionSetting = None, brokerChannel = Some ex, name = Some n,
                 isDurable = Some False\<rparr>)
    \<and> ((\<exists>k \<in> set keys. bindQueueReply B (Some n) (exchangeName ex) k \<noteq> None) \<longrightarrow>
          (\<exists>e. Some e \<in> bindQueueReply B (Some n) (exchangeName ex) ` set keys \<and>
               outcome (exchangeTemporaryDirectOrTopicSubscriberInstance C B ex keys) =
                 Inl (FAILED_BINDING_QUEUE_AND_EXCHANGE C @ jsToString e))))"
proof (intro conjI impI; (elim conjE)?)
  {
    assume nm: "\<not> nameMissing nm"
      and aq: "assertQueueReply B nm (orDefault True d) (orDefault False x) (orDefault False a) = Inr n"
    note eq = customInstanceUsingExchange_bound [OF build nm aq, of C "Some keys", unfolded orDefault_Some]
    show "calls (customInstanceUsingExchange C B ex nm (Some keys) d x a) =
        [Construct None (Some ex) nm, Build,
         AssertQueue nm (orDefault True d) (orDefault False x) (orDefault False a)]
        @ map (BindQueue (Some n) (exchangeName ex)) keys"
      by (simp add: eq resolveWith_def rejectWith_def split: option.splits)
    {
      assume "\<forall>k \<in> set keys. bindQueueReply B (Some n) (exchangeName ex) k = None"
      from promiseAll_map_None [OF this]
      show "outcome (customInstanceUsingExchange C B ex nm (Some keys) d x a) =
            Inr \<lparr>connectionSetting = None, brokerChannel = Some ex, name = Some n,
                 isDurable = Some (orDefault True d)\<rparr>"
        by (simp add: eq resolveWith_def)
    }
    {
      assume "\<exists>k \<in> set keys. bindQueueReply B (Some n) (exchangeName ex) k \<noteq> None"
      from promiseAll_map_failure [OF this]
      obtain e where pa: "promiseAll (map (bindQueueReply B (Some n) (exchangeName ex)) keys) = Some e"
        and mem: "Some e \<in> bindQueueReply B (Some n) (exchangeName ex) ` set keys"
        by blast
      then show "\<exists>e. Some e \<in> bindQueueReply B (Some n) (exchangeName ex) ` set keys \<and>
               outcome (customInstanceUsingExchange C B ex nm (Some keys) d x a) =
                 Inl (FAILED_BINDING_QUEUE_AND_EXCHANGE C @ jsToString e)"
        by (intro exI [of _ e]) (simp add: eq rejectWith_def)
    }
  }
  {
    assume nm: "\<not> nameMissing nm"
      and aq: "assertQueueReply B nm True False False = Inr n"
    note eq = individualExchangeSubscriberInstance_bound [OF build nm aq, of C "Some keys", unfolded orDefault_Some]
    show "calls (individualExchangeSubscriberInstance C B ex nm (Some keys)) =
        [Construct None (Some ex) nm, Build, AssertQueue nm True False False]
        @ map (BindQueue (Some n) (exchangeName ex)) keys"
      by (simp add: eq resolveWith_def rejectWith_def split: option.splits)
    {
      assume "\<forall>k \<in> set keys. bindQueueReply B (Some n) (exchangeName ex) k = None"
      from promiseAll_map_None [OF this]
      show "outcome (individualExchangeSubscriberInstance C B ex nm (Some keys)) =
            Inr \<lparr>connectionSetting = None, brokerChannel = Some ex, name = Some n,
                 isDurable = Some True\<rparr>"
        by (simp add: eq resolveWith_def)
    }
    {
      assume "\<exists>k \<in> set keys. bindQueueReply B (Some n) (exchangeName ex) k \<noteq> None"
      from promiseAll_map_failure [OF this]
      obtain e where pa: "promiseAll (map (bindQueueReply B (Some n) (exchangeName ex)) keys) = Some e"
        and mem: "Some e \<in> bindQueueReply B (Some n) (exchangeName ex) ` set keys"
        by blast
      then show "\<exists>e. Some e \<in> bindQueueReply B (Some n) (exchangeName ex) ` set keys \<and>
               outcome (individualExchangeSubscriberInstance C B ex nm (Some keys)) =
                 Inl (FAILED_BINDING_QUEUE_AND_EXCHANGE C @ jsToString e)"
        by (intro exI [of _ e]) (simp add: eq rejectWith_def)
    }
  }
  {
    assume aq: "assertQueueReply B (Some []) False True True = Inr n"
    note eq = exchangeTemporaryDirectOrTopicSubscriberInstance_bound [OF build aq, of C keys]
    show "calls (exchangeTemporaryDirectOrTopicSubscriberInstance C B ex keys) =
        [Construct None (Some ex) (Some []), Build, AssertQueue (Some []) False True True]
        @ map (BindQueue (Some n) (exchangeName ex)) keys"
      by (simp add: eq resolveWith_def rejectWith_def split: option.splits)
    {
      assume "\<forall>k \<in> set keys. bindQueueReply B (Some n) (exchangeName ex) k = None"
      from promiseAll_map_None [OF this]
      show "outcome (exchangeTemporaryDirectOrTopicSubscriberInstance C B ex keys) =
            Inr \<lparr>connectionSetting = None, brokerChannel = Some ex, name = Some n,
                 isDurable = Some False\<rparr>"
        by (simp add: eq resolveWith_def)
    }
    {
      assume "\<exists>k \<in> set keys. bindQueueReply B (Some n) (exchangeName ex) k \<noteq> None"
      from promiseAll_map_failure [OF this]
      obtain e where pa: "promiseAll (map (bindQueueReply B (Some n) (exchangeName ex)) keys) = Some e"
        and mem: "Some e \<in> bindQueueReply B (Some n) (exchangeName ex) ` set keys"
        by blast
      then show "\<exists>e. Some e \<in> bindQueueReply B (Some n) (exchangeName ex) ` set keys \<and>
               outcome (exchangeTemporaryDirectOrTopicSubscriberInstance C B ex keys) =
                 Inl (FAILED_BINDING_QUEUE_AND_EXCHANGE C @ jsToString e)"
        by (intro exI [of _ e]) (simp add: eq rejectWith_def)
    }
  }
qed

theorem binding_fan_out_witness:
  "buildReply bindFailBroker None (Some testExchange) = None
 \<and> \<not> nameMissing (Some ''orders'')
 \<and> assertQueueReply bindFailBroker (Some ''orders'') True False False = Inr ''orders''
 \<and> assertQueueReply bindFailBroker (Some []) False True True = Inr ''amq.gen-1''
 \<and> calls (individualExchangeSubscriberInstance testConstant bindFailBroker testExchange
      (Some ''orders'') (Some [''a'', ''bad'', ''c''])) =
     [Construct None (Some testExchange) (Some ''orders''), Build,
      AssertQueue (Some ''orders'') True False False,
      BindQueue (Some ''orders'') ''events'' ''a'',
      BindQueue (Some ''orders'') ''events'' ''bad'',
      BindQueue (Some ''orders'') ''events'' ''c'']
 \<and> outcome (individualExchangeSubscriberInstance testConstant bindFailBroker testExchange
      (Some ''orders'') (Some [''a'', ''bad'', ''c''])) = Inl ''bind failed: Error: NOT_FOUND''
 \<and> outcome (customInstanceUsingExchange testConstant bindFailBroker testExchange
      (Some ''orders'') (Some [''a'', ''bad'', ''c'']) None None None) =
     Inl ''bind failed: Error: NOT_FOUND''
 \<and> calls (exchangeTemporaryDirectOrTopicSubscriberInstance testConstant bindFailBroker
      testExchange [''a'', ''c'']) =
     [Construct None (Some testExchange) (Some []), Build,
      AssertQueue (Some []) False True True,
      BindQueue (Some ''amq.gen-1'') ''events'' ''a'',
      BindQueue (Some ''amq.gen-1'') ''events'' ''c'']
 \<and> outcome (exchangeTemporaryDirectOrTopicSubscriberInstance testConstant bindFailBroker
      testExchange [''a'', ''c'']) =
     Inr \<lparr>connectionSetting = None, brokerChannel = Some testExchange,
          name = Some ''amq.gen-1'', isDurable = Some False\<rparr>"
proof -
  have build: "buildReply bindFailBroker None (Some testExchange) = None"
    by (simp add: bindFailBroker_def okBroker_def)
  have named: "\<not> nameMissing (Some ''orders'')"
    by (simp add: nameMissing_def)
  have r1: "assertQueueReply bindFailBroker (Some ''orders'') True False False = Inr ''orders''"
    and r2: "assertQueueReply bindFailBroker (Some []) False True True = Inr ''amq.gen-1''"
    by (simp_all add: bindFailBroker_def okBroker_def)
  have bad: "\<exists>k \<in> set [''a'', ''bad'', ''c''].
               bindQueueReply bindFailBroker (Some ''orders'') (exchangeName testExchange) k \<noteq> None"
    by (simp add: bindFailBroker_def)
  have image: "\<And>e. Some e \<in> bindQueueReply bindFailBroker (Some ''orders'')
                       (exchangeName testExchange) ` set [''a'', ''bad'', ''c'']
                 \<Longrightarrow> e = JError ''NOT_FOUND''"
    by (auto simp: bindFailBroker_def split: if_splits)
  have good: "\<forall>k \<in> set [''a'', ''c''].
               bindQueueReply bindFailBroker (Some ''amq.gen-1'') (exchangeName testExchange) k = None"
    by (simp add: bindFailBroker_def)
  note named1 = binding_fan_out [OF build, where nm = "Some ''orders''" and n = "''orders''"
      and keys = "[''a'', ''bad'', ''c'']" and C = testConstant
      and d = None and x = None and a = None]
  note anon1 = binding_fan_out [OF build, where nm = None and n = "''amq.gen-1''"
      and keys = "[''a'', ''c'']" and C = testConstant
      and d = None and x = None and a = None]
  have i_calls: "calls (individualExchangeSubscriberInstance testConstant bindFailBroker
      testExchange (Some ''orders'') (Some [''a'', ''bad'', ''c''])) =
     [Construct None (Some testExchange) (Some ''orders''), Build,
      AssertQueue (Some ''orders'') True False False,
      BindQueue (Some ''orders'') ''events'' ''a'',
      BindQueue (Some ''orders'') ''events'' ''bad'',
      BindQueue (Some ''orders'') ''events'' ''c'']"
    using named1 named r1 by (simp add: testExchange_def)
  have i_out: "outcome (individualExchangeSubscriberInstance testConstant bindFailBroker
      testExchange (Some ''orders'') (Some [''a'', ''bad'', ''c''])) =
      Inl ''bind failed: Error: NOT_FOUND''"
  proof -
    from named1 named r1 bad obtain e where
      mem: "Some e \<in> bindQueueReply bindFailBroker (Some ''orders'')
                  (exchangeName testExchange) ` set [''a'', ''bad'', ''c'']"
      and out: "outcome (individualExchangeSubscriberInstance testConstant bindFailBroker
             testExchange (Some ''orders'') (Some [''a'', ''bad'', ''c''])) =
           Inl (FAILED_BINDING_QUEUE_AND_EXCHANGE testConstant @ jsToString e)"
      by blast
    from image [OF mem] out show ?thesis by (simp add: testConstant_def)
  qed
  have c_out: "outcome (customInstanceUsingExchange testConstant bindFailBroker testExchange
      (Some ''orders'') (Some [''a'', ''bad'', ''c'']) None None None) =
      Inl ''bind failed: Error: NOT_FOUND''"
  proof -
    from named1 named r1 bad obtain e where
      mem: "Some e \<in> bindQueueReply bindFailBroker (Some ''orders'')
                  (exchangeName testExchange) ` set [''a'', ''bad'', ''c'']"
      and out: "outcome (customInstanceUsingExchange testConstant bindFailBroker testExchange
             (Some ''orders'') (Some [''a'', ''bad'', ''c'']) None None None) =
           Inl (FAILED_BINDING_QUEUE_AND_EXCHANGE testConstant @ jsToString e)"
      unfolding orDefault_None by blast
    from image [OF mem] out show ?thesis by (simp add: testConstant_def)
  qed
  have t_calls: "calls (exchangeTemporaryDirectOrTopicSubscriberInstance testConstant
      bindFailBroker testExchange [''a'', ''c'']) =
     [Construct None (Some testExchange) (Some []), Build,
      AssertQueue (Some []) False True True,
      BindQueue (Some ''amq.gen-1'') ''events'' ''a'',
      BindQueue (Some ''amq.gen-1'') ''events'' ''c'']"
    using anon1 r2 by (simp add: testExchange_def)
  have t_out: "outcome (exchangeTemporaryDirectOrTopicSubscriberInstance testConstant
      bindFailBroker testExchange [''a'', ''c'']) =
     Inr \<lparr>connectionSetting = None, brokerChannel = Some testExchange,
          name = Some ''amq.gen-1'', isDurable = Some False\<rparr>"
    using anon1 r2 good by blast
  from build named r1 r2 i_calls i_out c_out t_calls t_out show ?thesis by blast
qed

text \<open>
  Claim C1. A recipe whose name is required rejects a null or empty name with
  \<^verbatim>\<open>INDIVIDUAL_SUBSCRIBER_MUST_HAS_NAME\<close> before any call. The six recipes with the
  guard do (\<open>guarded_recipes_reject_missing_name\<close>).
  \<^verbatim>\<open>exchangeNamedSubscriberInstance\<close>, whose documentation asks for a name that
  "must be provided" and is "non-empty", has no guard: for every broker and every
  name, also a missing one, it constructs the queue and calls \<^verbatim>\<open>build()\<close>; against a
  broker that accepts every call it asserts the queue with the empty (or null) name,
  binds the broker-named queue and resolves.
\<close>

theorem exchangeNamedSubscriberInstance_accepts_missing_name:
  "exchangeNamedSubscriberInstance C okBroker ex (Some []) =
     \<lparr>outcome = Inr \<lparr>connectionSetting = None, brokerChannel = Some ex,
                     name = Some ''amq.gen-1'', isDurable = Some True\<rparr>,
      calls = [Construct None (Some ex) (Some []), Build,
               AssertQueue (Some []) True False False,
               BindQueue (Some ''amq.gen-1'') (exchangeName ex) []],
      debugLog = []\<rparr>
 \<and> exchangeNamedSubscriberInstance C okBroker ex None =
     \<lparr>outcome = Inr \<lparr>connectionSetting = None, brokerChannel = Some ex,
                     name = Some ''amq.gen-1'', isDurable = Some True\<rparr>,
      calls = [Construct None (Some ex) None, Build,
               AssertQueue None True False False,
               BindQueue (Some ''amq.gen-1'') (exchangeName ex) []],
      debugLog = []\<rparr>
 \<and> take 2 (calls (exchangeNamedSubscriberInstance C B ex nm)) =
     [Construct None (Some ex) nm, Build]"
  by (simp add: exchangeNamedSubscriberInstance_def okBroker_def newQueue_def
        constructQueueAssertion_def setDurable_def setName_def resolveWith_def rejectWith_def
        Let_def split: option.splits prod.splits sum.splits)

text \<open>
  Claim C2. The rejection of a recipe names the stage that failed. For a failure of
  \<^verbatim>\<open>build()\<close> and for a rejected bind it does (\<open>build_failure_diagnostic\<close>,
  \<open>binding_fan_out\<close>, \<open>single_bind_failure_diagnostic\<close>). For a rejected
  \<^verbatim>\<open>assertQueue\<close> inside \<^verbatim>\<open>customInstanceUsingConnectionSetting\<close>, a recipe that
  binds nothing, the diagnostic the recipe puts in front is
  \<^verbatim>\<open>FAILED_BINDING_QUEUE_AND_EXCHANGE\<close>; the text of the assertion stage appears only
  behind it, inside the wrapped cause. \<^verbatim>\<open>durableInstance\<close> on the same input and
  broker puts \<^verbatim>\<open>FAILED_ASSERT_QUEUE\<close> in front.
\<close>

theorem customInstanceUsingConnectionSetting_assertion_failure_diagnostic:
  "customInstanceUsingConnectionSetting C assertFailBroker (Some ()) (Some ''orders'')
       None None None =
     \<lparr>outcome = Inl (FAILED_BINDING_QUEUE_AND_EXCHANGE C @ ''Error: '' @ FAILED_ASSERT_QUEUE C
                       @ ''Error: PRECONDITION_FAILED''),
      calls = [Construct (Some ()) None (Some ''orders''), Build,
               AssertQueue (Some ''orders'') True False False],
      debugLog = [FAILED_BINDING_QUEUE_AND_EXCHANGE C @ ''Error: '' @ FAILED_ASSERT_QUEUE C
                       @ ''Error: PRECONDITION_FAILED'']\<rparr>
 \<and> outcome (durableInstance C assertFailBroker (Some ()) (Some ''orders'')) =
     Inl (FAILED_ASSERT_QUEUE C @ ''Error: '' @ FAILED_ASSERT_QUEUE C
            @ ''Error: PRECONDITION_FAILED'')"
  by (simp add: customInstanceUsingConnectionSetting_def durableInstance_def
        assertFailBroker_def okBroker_def newQueue_def constructQueueAssertion_def
        setDurable_def setName_def resolveWith_def rejectWith_def Let_def
        nameMissing_def orDefault_def)

end
